theory Spec2Isabelle
  imports Main
begin

section \<open>Python strings\<close>

text \<open>
  A Python \<open>str\<close> is a sequence of Unicode code points and \<open>len\<close> counts code points, so
  a text is a list of code points. The texts of \<open>main.py\<close> that reach the database are
  Cyrillic; they are written out as code points below. \<open>lit\<close> turns an ASCII literal into
  its code points.
\<close>

type_synonym str = "nat list"

definition lit :: "string \<Rightarrow> str" where
  "lit s = map of_char s"

text \<open>
  \<open>str.strip()\<close> without arguments removes the characters for which \<open>str.isspace\<close>
  holds from both ends: U+0009..U+000D, U+001C..U+0020, U+0085, U+00A0, U+1680,
  U+2000..U+200A, U+2028, U+2029, U+202F, U+205F and U+3000.
\<close>

definition isspace :: "nat \<Rightarrow> bool" where
  "isspace c \<longleftrightarrow>
     (9 \<le> c \<and> c \<le> 13) \<or> (28 \<le> c \<and> c \<le> 32) \<or> c = 133 \<or> c = 160 \<or> c = 5760 \<or>
     (8192 \<le> c \<and> c \<le> 8202) \<or> c = 8232 \<or> c = 8233 \<or> c = 8239 \<or> c = 8287 \<or> c = 12288"

definition strip :: "str \<Rightarrow> str" where
  "strip s = rev (dropWhile isspace (rev (dropWhile isspace s)))"

text \<open>\<open>s.startswith('@')\<close> and the slice \<open>s[1:]\<close>.\<close>

definition startswith_at :: "str \<Rightarrow> bool" where
  "startswith_at s = (case s of [] \<Rightarrow> False | c # _ \<Rightarrow> c = 64)"

subsection \<open>The built-in \<open>int\<close> on a string\<close>

text \<open>
  \<open>int(s)\<close> in base 10, as CPython reads it. The string is first brought to ASCII: a
  code point below 128 stays, any other white space becomes a blank, any other decimal
  digit becomes the ASCII digit of its value, and anything else becomes \<open>?\<close>. The decimal
  value of a code point from 128 on comes from the Unicode database of the interpreter,
  which is no part of the repository: it is the parameter \<open>dec\<close> (\<open>dec c = Some d\<close> with
  \<open>d \<le> 9\<close> for a decimal digit, \<open>None\<close> otherwise). Then blanks of the C locale
  (9..13 and 32) are skipped on both sides, one sign is read, and the rest has to be
  digits with single underscores between them. Anything else raises \<open>ValueError\<close>,
  which is \<open>None\<close> here. The interpreter's limit on the number of digits (4300 by
  default) lies above the 4096 characters of a Telegram message and is left out.
\<close>

definition c_isspace :: "nat \<Rightarrow> bool" where
  "c_isspace c \<longleftrightarrow> (9 \<le> c \<and> c \<le> 13) \<or> c = 32"

definition to_ascii :: "(nat \<Rightarrow> nat option) \<Rightarrow> nat \<Rightarrow> nat" where
  "to_ascii dec c =
     (if c < 128 then c
      else if isspace c then 32
      else case dec c of Some d \<Rightarrow> 48 + d | None \<Rightarrow> 63)"

text \<open>
  The scan of the digits: \<open>prev\<close> is the character before, \<open>acc\<close> the value so far.
  Two underscores in a row and an underscore at the end are refused.
\<close>

fun scan_digits :: "nat \<Rightarrow> nat \<Rightarrow> nat list \<Rightarrow> nat option" where
  "scan_digits prev acc [] = (if prev = 95 then None else Some acc)"
| "scan_digits prev acc (c # cs) =
     (if c = 95 then (if prev = 95 then None else scan_digits c acc cs)
      else if 48 \<le> c \<and> c \<le> 57 then scan_digits c (10 * acc + (c - 48)) cs
      else None)"

definition digits_run :: "nat list \<Rightarrow> nat option" where
  "digits_run cs =
     (case cs of [] \<Rightarrow> None
      | c # _ \<Rightarrow> if c = 95 then None else scan_digits 0 0 cs)"

definition py_int :: "(nat \<Rightarrow> nat option) \<Rightarrow> str \<Rightarrow> int option" where
  "py_int dec s =
     (let a = map (to_ascii dec) s;
          b = rev (dropWhile c_isspace (rev (dropWhile c_isspace a)))
      in case b of
           [] \<Rightarrow> None
         | c # cs \<Rightarrow>
             if c = 43 then map_option int (digits_run cs)
             else if c = 45 then map_option (\<lambda>n. - int n) (digits_run cs)
             else map_option int (digits_run b))"

section \<open>The record store\<close>

text \<open>
  The constants of \<open>CallbackData\<close> and the dictionary \<open>PROBLEM_NAMES\<close>. The values of
  \<open>PROBLEM_NAMES\<close> and the defaults \<open>NOT_GIVEN_USERNAME\<close> (the user name put in for a
  user without one) and \<open>NOT_GIVEN_NAME\<close> (the name put in when the conversation data
  hold none) are Russian texts, given by their code points.
\<close>

definition ANXIETY :: str where "ANXIETY = lit ''btn_anxiety''"
definition RELATIONS :: str where "RELATIONS = lit ''btn_relations''"
definition SELF :: str where "SELF = lit ''btn_self''"
definition CUSTOM :: str where "CUSTOM = lit ''btn_custom''"
definition SIGNUP :: str where "SIGNUP = lit ''btn_signup''"

definition NAME_ANXIETY :: str where
  "NAME_ANXIETY = [1058, 1088, 1077, 1074, 1086, 1075, 1072, 47, 1057, 1090, 1088, 1077, 1089, 1089]"
definition NAME_RELATIONS :: str where
  "NAME_RELATIONS = [1054, 1090, 1085, 1086, 1096, 1077, 1085, 1080, 1103]"
definition NAME_SELF :: str where
  "NAME_SELF = [1042, 1099, 1075, 1086, 1088, 1072, 1085, 1080, 1077, 47, 1057, 1072, 1084,
                1086, 1086, 1094, 1077, 1085, 1082, 1072]"
definition NAME_CUSTOM :: str where
  "NAME_CUSTOM = [1057, 1074, 1086, 1103, 32, 1087, 1088, 1086, 1073, 1083, 1077, 1084, 1072]"
definition UNKNOWN_PROBLEM :: str where
  "UNKNOWN_PROBLEM = [1053, 1077, 1080, 1079, 1074, 1077, 1089, 1090, 1085, 1072, 1103, 32,
                      1087, 1088, 1086, 1073, 1083, 1077, 1084, 1072]"
definition NOT_GIVEN_USERNAME :: str where
  "NOT_GIVEN_USERNAME = [1085, 1077, 32, 1091, 1082, 1072, 1079, 1072, 1085]"
definition NOT_GIVEN_NAME :: str where
  "NOT_GIVEN_NAME = [1053, 1077, 32, 1091, 1082, 1072, 1079, 1072, 1085, 1086]"
definition NOT_GIVEN_PROBLEM :: str where
  "NOT_GIVEN_PROBLEM = [1085, 1077, 32, 1091, 1082, 1072, 1079, 1072, 1085, 1072]"

definition PROBLEM_NAMES :: "str \<Rightarrow> str option" where
  "PROBLEM_NAMES k =
     (if k = ANXIETY then Some NAME_ANXIETY
      else if k = RELATIONS then Some NAME_RELATIONS
      else if k = SELF then Some NAME_SELF
      else if k = CUSTOM then Some NAME_CUSTOM
      else None)"

text \<open>
  A row of the table \<open>users\<close>. \<open>user_id\<close> is the primary key and is kept beside the row;
  \<open>full_name\<close> is \<open>NOT NULL\<close>; every other column may hold \<open>NULL\<close>, which is \<open>None\<close>.
  \<open>created_at\<close> is the clock reading at the insert. User identifiers are those of
  Telegram, integers well inside the 64 bits of an SQLite \<open>INTEGER\<close>.
\<close>

record user_row =
  username :: "str option"
  full_name :: str
  problem_segment :: "str option"
  custom_problem :: "str option"
  real_name :: "str option"
  age :: "int option"
  phone :: "str option"
  created_at :: nat

text \<open>
  The table has the columns it was created with, so that a statement naming a column the
  table lacks fails as it does in SQLite. The rows are kept in the order of their insertion.
\<close>

record table =
  cols :: "string list"
  rows :: "(int \<times> user_row) list"

text \<open>
  The database file \<open>/data/psychology_bot.db\<close>: its directory cannot be reached; or the
  file is not there; or it is there and is no database; or it is a database, with or
  without a table \<open>users\<close>.
\<close>

datatype dbfile = Unreachable | Missing | Corrupt | Db "table option"

definition ALL_COLUMNS :: "string list" where
  "ALL_COLUMNS = [''user_id'', ''username'', ''full_name'', ''problem_segment'',
                  ''custom_problem'', ''real_name'', ''age'', ''phone'', ''created_at'']"

definition has_cols :: "string list \<Rightarrow> table \<Rightarrow> bool" where
  "has_cols cs t \<longleftrightarrow> set cs \<subseteq> set (cols t)"

text \<open>\<open>os.path.exists\<close> and \<open>os.remove\<close> on the database file.\<close>

definition path_exists :: "dbfile \<Rightarrow> bool" where
  "path_exists d = (case d of Unreachable \<Rightarrow> False | Missing \<Rightarrow> False | _ \<Rightarrow> True)"

definition os_remove :: "dbfile \<Rightarrow> dbfile" where
  "os_remove d = (if path_exists d then Missing else d)"

text \<open>
  \<open>sqlite3.connect\<close> creates a missing file as an empty database; \<open>opened\<close> is the file
  after a connection whose statement then failed. \<open>users_table\<close> is the table a statement
  works on; where there is none, the statement raises and the function that issued it
  returns its failure value from the \<open>except\<close> branch.
\<close>

definition opened :: "dbfile \<Rightarrow> dbfile" where
  "opened d = (case d of Missing \<Rightarrow> Db None | _ \<Rightarrow> d)"

definition users_table :: "dbfile \<Rightarrow> table option" where
  "users_table d = (case d of Db (Some t) \<Rightarrow> Some t | _ \<Rightarrow> None)"

definition records :: "dbfile \<Rightarrow> (int \<times> user_row) list" where
  "records d = (case users_table d of Some t \<Rightarrow> rows t | None \<Rightarrow> [])"

definition init_database :: "dbfile \<Rightarrow> bool \<times> dbfile" where
  "init_database d =
     (let d1 = (if path_exists d then os_remove d else d)
      in case d1 of
           Unreachable \<Rightarrow> (False, Unreachable)
         | Corrupt \<Rightarrow> (False, Corrupt)
         | Missing \<Rightarrow> (True, Db (Some \<lparr>cols = ALL_COLUMNS, rows = []\<rparr>))
         | Db None \<Rightarrow> (True, Db (Some \<lparr>cols = ALL_COLUMNS, rows = []\<rparr>))
         | Db (Some t) \<Rightarrow> (True, Db (Some t)))"

definition user_exists :: "int \<Rightarrow> dbfile \<Rightarrow> bool \<times> dbfile" where
  "user_exists user_id d =
     (case users_table d of
        None \<Rightarrow> (False, opened d)
      | Some t \<Rightarrow>
          if has_cols [''user_id''] t then (user_id \<in> fst ` set (rows t), d)
          else (False, d))"

text \<open>\<open>INSERT OR IGNORE\<close>: a row whose key is already there is left as it is.\<close>

definition insert_or_ignore ::
  "int \<Rightarrow> user_row \<Rightarrow> (int \<times> user_row) list \<Rightarrow> (int \<times> user_row) list" where
  "insert_or_ignore k r rs = (if k \<in> fst ` set rs then rs else rs @ [(k, r)])"

definition new_row :: "str \<Rightarrow> str \<Rightarrow> nat \<Rightarrow> user_row" where
  "new_row un fn now =
     \<lparr>username = Some un, full_name = fn, problem_segment = None, custom_problem = None,
      real_name = None, age = None, phone = None, created_at = now\<rparr>"

definition add_user :: "int \<Rightarrow> str \<Rightarrow> str \<Rightarrow> nat \<Rightarrow> dbfile \<Rightarrow> bool \<times> dbfile" where
  "add_user user_id un fn now d =
     (case users_table d of
        None \<Rightarrow> (False, opened d)
      | Some t \<Rightarrow>
          if has_cols [''user_id'', ''username'', ''full_name''] t
          then (True, Db (Some (t\<lparr>rows := insert_or_ignore user_id (new_row un fn now) (rows t)\<rparr>)))
          else (False, d))"

text \<open>\<open>UPDATE users SET ... WHERE user_id = ?\<close>: every row with the key is changed.\<close>

definition update_where ::
  "int \<Rightarrow> (user_row \<Rightarrow> user_row) \<Rightarrow> (int \<times> user_row) list \<Rightarrow> (int \<times> user_row) list" where
  "update_where k f rs = map (\<lambda>(k', r). if k' = k then (k', f r) else (k', r)) rs"

text \<open>A Python string is true in a condition when it is neither \<open>None\<close> nor empty.\<close>

definition truthy :: "str option \<Rightarrow> bool" where
  "truthy s = (case s of None \<Rightarrow> False | Some t \<Rightarrow> t \<noteq> [])"

definition update_user_problem :: "int \<Rightarrow> str \<Rightarrow> str option \<Rightarrow> dbfile \<Rightarrow> bool \<times> dbfile" where
  "update_user_problem user_id segment custom d =
     (case users_table d of
        None \<Rightarrow> (False, opened d)
      | Some t \<Rightarrow>
          if truthy custom \<and> segment = CUSTOM then
            (if has_cols [''problem_segment'', ''custom_problem'', ''user_id''] t
             then (True, Db (Some (t\<lparr>rows := update_where user_id
                     (\<lambda>r. r\<lparr>problem_segment := Some segment, custom_problem := custom\<rparr>)
                     (rows t)\<rparr>)))
             else (False, d))
          else
            (if has_cols [''problem_segment'', ''user_id''] t
             then (True, Db (Some (t\<lparr>rows := update_where user_id
                     (\<lambda>r. r\<lparr>problem_segment := Some segment\<rparr>) (rows t)\<rparr>)))
             else (False, d)))"

definition update_user_contact_info ::
  "int \<Rightarrow> str \<Rightarrow> int \<Rightarrow> str \<Rightarrow> dbfile \<Rightarrow> bool \<times> dbfile" where
  "update_user_contact_info user_id name a ph d =
     (case users_table d of
        None \<Rightarrow> (False, opened d)
      | Some t \<Rightarrow>
          if has_cols [''real_name'', ''age'', ''phone'', ''user_id''] t
          then (True, Db (Some (t\<lparr>rows := update_where user_id
                  (\<lambda>r. r\<lparr>real_name := Some name, age := Some a, phone := Some ph\<rparr>)
                  (rows t)\<rparr>)))
          else (False, d))"

text \<open>
  \<open>get_user_stats\<close> runs four queries and returns \<open>None\<close> when one of them fails. The
  two counts are kept; the distribution by problem and the five latest requests are
  ordered listings whose order among equal keys SQLite leaves open, and are not part of
  the result here, but the columns their queries name have to be there.
\<close>

record stats =
  total_users :: nat
  users_with_requests :: nat

definition get_user_stats :: "dbfile \<Rightarrow> stats option \<times> dbfile" where
  "get_user_stats d =
     (case users_table d of
        None \<Rightarrow> (None, opened d)
      | Some t \<Rightarrow>
          if has_cols [''real_name'', ''phone'', ''problem_segment'', ''age'',
                       ''custom_problem'', ''created_at''] t
          then (Some \<lparr>total_users = length (rows t),
                      users_with_requests =
                        length (filter (\<lambda>(k, r). real_name r \<noteq> None \<and> phone r \<noteq> None) (rows t))\<rparr>,
                d)
          else (None, d))"

text \<open>
  \<open>export_users_to_excel\<close> returns the pair of a file name and an error text, one of
  them \<open>None\<close>. The file is stood for by the number of rows written to it.
\<close>

datatype export_error = Database_empty | Export_exception

definition export_users_to_excel :: "dbfile \<Rightarrow> (nat option \<times> export_error option) \<times> dbfile" where
  "export_users_to_excel d =
     (case users_table d of
        None \<Rightarrow> ((None, Some Export_exception), opened d)
      | Some t \<Rightarrow>
          if has_cols [''created_at''] t
          then (if rows t = [] then ((None, Some Database_empty), d)
                else ((Some (length (rows t)), None), d))
          else ((None, Some Export_exception), d))"

section \<open>The conversation\<close>

text \<open>
  The states of \<open>Form\<close>, and what the \<open>FSMContext\<close> of one user holds in the memory
  storage: the state (\<open>None\<close> outside a dialogue) and the data dictionary, whose only
  keys are \<open>name\<close> and \<open>age\<close>.
\<close>

datatype form = Form_name | Form_age | Form_custom_problem | Form_phone

record fsm_context =
  state :: "form option"
  data_name :: "str option"
  data_age :: "int option"

definition set_state :: "form \<Rightarrow> fsm_context \<Rightarrow> fsm_context" where
  "set_state f c = c\<lparr>state := Some f\<rparr>"

definition clear :: "fsm_context \<Rightarrow> fsm_context" where
  "clear c = \<lparr>state = None, data_name = None, data_age = None\<rparr>"

text \<open>
  What a handler sends, by kind and with the values it shows. The texts themselves are
  fixed templates. \<open>Admin_request\<close> is the notification of the operator: name, age,
  problem, contact and user identifier.
\<close>

datatype problem_display = Own_problem str | Plain str

datatype msg =
    Welcome
  | Problem_response str
  | Signup_keyboard
  | Describe_problem
  | Problem_too_short
  | Problem_thanks str
  | Ask_name
  | Name_too_short
  | Ask_age str
  | Age_out_of_range
  | Age_not_digits
  | Ask_username int
  | Username_too_short
  | Request_accepted
  | Admin_request str int problem_display str int
  | No_rights
  | Export_begins
  | Export_error export_error
  | Export_nothing
  | Export_document nat nat nat
  | Stats_unavailable
  | Stats_text stats
  | Startup_notice

text \<open>
  The part of the world a handler works on: the context of the user who wrote, the
  database file, and the messages sent so far. Sending is the business of the Telegram
  client and is taken to succeed. A handler returns or raises; what it changed before
  it raised stays changed, and the dispatcher that called it goes on with the next update.
\<close>

text \<open>
  The router of aiogram gives an update to the first handler, in the order of
  registration, whose filter it passes. \<open>/start\<close> and the three texts of the main
  keyboard have their handlers registered before those of the dialogue and are taken by
  them in every state; every other text that arrives in a state of \<open>Form\<close> goes to the
  handler of that state. A handler is modelled as a function of what it reads from the
  update (the user identifier, and the text, which is \<open>None\<close> for a message without
  text, where \<open>message.text.strip()\<close> raises) and of the world.
\<close>

record world =
  ctx :: fsm_context
  db :: dbfile
  sent :: "msg list"

datatype error = AttributeError | IndexError

datatype outcome = Returned | Raised error

definition answer :: "msg \<Rightarrow> world \<Rightarrow> world" where
  "answer m w = w\<lparr>sent := sent w @ [m]\<rparr>"

subsection \<open>Start of the process and of a conversation\<close>

text \<open>
  \<open>on_startup\<close> calls \<open>init_database\<close> and tells the operator when \<open>ADMIN_ID\<close> is set
  (it is 0 when the environment gives none). The memory storage of the contexts is new
  with every process.
\<close>

definition on_startup :: "int \<Rightarrow> dbfile \<Rightarrow> dbfile \<times> msg list" where
  "on_startup ADMIN_ID d =
     (snd (init_database d), if ADMIN_ID \<noteq> 0 then [Startup_notice] else [])"

definition REQUIRED_COLUMNS :: "string list" where
  "REQUIRED_COLUMNS = [''custom_problem'', ''age'', ''real_name'']"

text \<open>
  The check of the table at \<open>/start\<close>: \<open>PRAGMA table_info(users)\<close> gives no column when
  there is no table, and fails on a file that is no database, which the bare
  \<open>except\<close> answers by removing the file as well.
\<close>

definition check_schema :: "dbfile \<Rightarrow> dbfile" where
  "check_schema d =
     (if \<not> path_exists d then snd (init_database d)
      else case d of
             Corrupt \<Rightarrow> snd (init_database (os_remove d))
           | _ \<Rightarrow>
               (let columns = (case users_table d of Some t \<Rightarrow> cols t | None \<Rightarrow> []);
                    missing_columns = filter (\<lambda>c. c \<notin> set columns) REQUIRED_COLUMNS
                in if missing_columns \<noteq> [] then snd (init_database (os_remove d)) else d))"

definition command_start ::
  "int \<Rightarrow> str option \<Rightarrow> str \<Rightarrow> nat \<Rightarrow> world \<Rightarrow> outcome \<times> world" where
  "command_start user_id uname fname now w =
     (let un = (if truthy uname then the uname else NOT_GIVEN_USERNAME);
          d1 = check_schema (db w);
          (ex, d2) = user_exists user_id d1;
          d3 = (if \<not> ex then snd (add_user user_id un fname now d2) else d2);
          w1 = w\<lparr>db := d3\<rparr>
      in if fname \<noteq> [] \<and> (\<forall>c \<in> set fname. isspace c) then (Raised IndexError, w1)
         else (Returned, answer Welcome w1))"

subsection \<open>Choice of the problem\<close>

definition handle_problem_selection :: "int \<Rightarrow> str \<Rightarrow> world \<Rightarrow> world" where
  "handle_problem_selection user_id problem_key w =
     (let problem_name = (case PROBLEM_NAMES problem_key of Some n \<Rightarrow> n | None \<Rightarrow> UNKNOWN_PROBLEM);
          d1 = snd (update_user_problem user_id problem_name None (db w))
      in answer Signup_keyboard (answer (Problem_response problem_key) (w\<lparr>db := d1\<rparr>)))"

definition handle_custom_problem_start :: "world \<Rightarrow> world" where
  "handle_custom_problem_start w =
     (answer Describe_problem w)\<lparr>ctx := set_state Form_custom_problem (ctx w)\<rparr>"

definition handle_custom_problem_input :: "int \<Rightarrow> str option \<Rightarrow> world \<Rightarrow> outcome \<times> world" where
  "handle_custom_problem_input user_id text w =
     (case text of
        None \<Rightarrow> (Raised AttributeError, w)
      | Some t \<Rightarrow>
          let custom = strip t
          in if length custom < 10 then (Returned, answer Problem_too_short w)
             else
               let d1 = snd (update_user_problem user_id CUSTOM (Some custom) (db w));
                   w1 = answer Signup_keyboard (answer (Problem_thanks (take 100 custom)) (w\<lparr>db := d1\<rparr>))
               in (Returned, w1\<lparr>ctx := clear (ctx w1)\<rparr>))"

subsection \<open>Name, age and contact\<close>

definition handle_signup_start :: "world \<Rightarrow> world" where
  "handle_signup_start w = (answer Ask_name w)\<lparr>ctx := set_state Form_name (ctx w)\<rparr>"

definition handle_name_input :: "str option \<Rightarrow> world \<Rightarrow> outcome \<times> world" where
  "handle_name_input text w =
     (case text of
        None \<Rightarrow> (Raised AttributeError, w)
      | Some t \<Rightarrow>
          let name = strip t
          in if length name < 2 then (Returned, answer Name_too_short w)
             else
               let w1 = w\<lparr>ctx := (ctx w)\<lparr>data_name := Some name\<rparr>\<rparr>;
                   w2 = answer (Ask_age name) w1
               in (Returned, w2\<lparr>ctx := set_state Form_age (ctx w2)\<rparr>))"

definition handle_age_input ::
  "(nat \<Rightarrow> nat option) \<Rightarrow> str option \<Rightarrow> world \<Rightarrow> outcome \<times> world" where
  "handle_age_input dec text w =
     (case text of
        None \<Rightarrow> (Raised AttributeError, w)
      | Some t \<Rightarrow>
          let age_text = strip t
          in case py_int dec age_text of
               None \<Rightarrow> (Returned, answer Age_not_digits w)
             | Some a \<Rightarrow>
                 if a < 10 \<or> a > 100 then (Returned, answer Age_out_of_range w)
                 else
                   let w1 = w\<lparr>ctx := (ctx w)\<lparr>data_age := Some a\<rparr>\<rparr>;
                       w2 = answer (Ask_username a) w1
                   in (Returned, w2\<lparr>ctx := set_state Form_phone (ctx w2)\<rparr>))"

text \<open>
  The problem shown to the operator, read from the row of the user: the text of the
  user's own problem cut to 100 characters, or the name of the stored segment, or the
  segment as stored; a fixed text when there is no row or no segment, another when the
  query fails.
\<close>

definition NOT_DETERMINED :: str where
  "NOT_DETERMINED = [1085, 1077, 32, 1091, 1076, 1072, 1083, 1086, 1089, 1100, 32, 1086, 1087,
                     1088, 1077, 1076, 1077, 1083, 1080, 1090, 1100]"

definition problem_display_of :: "int \<Rightarrow> dbfile \<Rightarrow> problem_display \<times> dbfile" where
  "problem_display_of user_id d =
     (case users_table d of
        None \<Rightarrow> (Plain NOT_DETERMINED, opened d)
      | Some t \<Rightarrow>
          if has_cols [''problem_segment'', ''custom_problem'', ''user_id''] t then
            (case find (\<lambda>(k, r). k = user_id) (rows t) of
               None \<Rightarrow> (Plain NOT_GIVEN_PROBLEM, d)
             | Some (k, r) \<Rightarrow>
                 let segment = (if truthy (problem_segment r) then the (problem_segment r)
                                else NOT_GIVEN_PROBLEM)
                 in if segment = CUSTOM \<and> truthy (custom_problem r)
                    then (Own_problem (take 100 (the (custom_problem r))), d)
                    else case PROBLEM_NAMES segment of
                           Some n \<Rightarrow> (Plain n, d)
                         | None \<Rightarrow> (Plain segment, d))
          else (Plain NOT_DETERMINED, d))"

definition handle_phone_input :: "int \<Rightarrow> int \<Rightarrow> str option \<Rightarrow> world \<Rightarrow> outcome \<times> world" where
  "handle_phone_input ADMIN_ID user_id text w =
     (case text of
        None \<Rightarrow> (Raised AttributeError, w)
      | Some t \<Rightarrow>
          let telegram_username = strip t
          in if length telegram_username < 3 then (Returned, answer Username_too_short w)
             else
               let u = (if startswith_at telegram_username then tl telegram_username
                        else telegram_username);
                   name = (case data_name (ctx w) of Some n \<Rightarrow> n | None \<Rightarrow> NOT_GIVEN_NAME);
                   a = (case data_age (ctx w) of Some n \<Rightarrow> n | None \<Rightarrow> 0);
                   (shown, d1) = problem_display_of user_id (db w);
                   d2 = snd (update_user_contact_info user_id name a u d1);
                   w1 = answer Request_accepted (w\<lparr>db := d2\<rparr>);
                   w2 = (if ADMIN_ID \<noteq> 0 then answer (Admin_request name a shown u user_id) w1
                         else w1)
               in (Returned, w2\<lparr>ctx := clear (ctx w2)\<rparr>))"

subsection \<open>Commands of the operator\<close>

text \<open>
  \<open>/export\<close> and \<open>/stats\<close>. After a refusal the handler returns at once. The document
  of the export carries the number of rows and the two counts of \<open>get_user_stats\<close>
  (0 and 0 when that fails). An empty table comes back from \<open>export_users_to_excel\<close>
  with an error text and is reported through the branch for errors.
\<close>

definition command_export :: "int \<Rightarrow> int \<Rightarrow> world \<Rightarrow> world" where
  "command_export ADMIN_ID user_id w =
     (if user_id \<noteq> ADMIN_ID then answer No_rights w
      else
        let w1 = answer Export_begins w;
            ((filename, err), d1) = export_users_to_excel (db w1);
            w2 = w1\<lparr>db := d1\<rparr>
        in case err of
             Some e \<Rightarrow> answer (Export_error e) w2
           | None \<Rightarrow>
               (case filename of
                  None \<Rightarrow> answer Export_nothing w2
                | Some n \<Rightarrow>
                    let (st, d2) = get_user_stats (db w2);
                        total = (case st of Some s \<Rightarrow> total_users s | None \<Rightarrow> 0);
                        requests = (case st of Some s \<Rightarrow> users_with_requests s | None \<Rightarrow> 0)
                    in answer (Export_document n total requests) (w2\<lparr>db := d2\<rparr>)))"

definition command_stats :: "int \<Rightarrow> int \<Rightarrow> world \<Rightarrow> world" where
  "command_stats ADMIN_ID user_id w =
     (if user_id \<noteq> ADMIN_ID then answer No_rights w
      else
        let (st, d1) = get_user_stats (db w);
            w1 = w\<lparr>db := d1\<rparr>
        in case st of
             None \<Rightarrow> answer Stats_unavailable w1
           | Some s \<Rightarrow> answer (Stats_text s) w1)"

text \<open>The world after a handler has returned or raised.\<close>

definition after :: "outcome \<times> world \<Rightarrow> world" where
  "after r = snd r"

section \<open>Reachable stores and example states\<close>

text \<open>A record is complete when its three contact fields are set.\<close>

definition complete :: "user_row \<Rightarrow> bool" where
  "complete r \<longleftrightarrow> real_name r \<noteq> None \<and> age r \<noteq> None \<and> phone r \<noteq> None"

text \<open>
  The stores the program can be in: \<open>init_database\<close> has run (it runs at every start of
  the process), and after it any of the functions that open the database, with any
  arguments of their types. The set beside the store holds the user identifiers for which
  \<open>add_user\<close> has succeeded since the store was created.
\<close>

inductive reach :: "dbfile \<Rightarrow> int set \<Rightarrow> bool" where
  created: "reach (snd (init_database d)) {}"
| added: "reach d U \<Longrightarrow> add_user uid un fn now d = (ok, d') \<Longrightarrow>
          reach d' (if ok then insert uid U else U)"
| asked: "reach d U \<Longrightarrow> reach (snd (user_exists uid d)) U"
| problem: "reach d U \<Longrightarrow> reach (snd (update_user_problem uid seg cp d)) U"
| contact: "reach d U \<Longrightarrow> reach (snd (update_user_contact_info uid n a p d)) U"
| shown: "reach d U \<Longrightarrow> reach (snd (problem_display_of uid d)) U"
| counted: "reach d U \<Longrightarrow> reach (snd (get_user_stats d)) U"
| exported: "reach d U \<Longrightarrow> reach (snd (export_users_to_excel d)) U"

text \<open>
  A world for the examples: user 1 is in the table of a newly created database and is
  in the state \<open>f\<close> of the dialogue, with a name and an age in the conversation data.
\<close>

definition asking :: "form \<Rightarrow> world" where
  "asking f =
     \<lparr>ctx = \<lparr>state = Some f, data_name = Some (lit ''Anna''), data_age = Some 29\<rparr>,
      db = Db (Some \<lparr>cols = ALL_COLUMNS,
                     rows = [(1, new_row (lit ''anna_t'') (lit ''Anna T'') 0)]\<rparr>),
      sent = []\<rparr>"

text \<open>
  What holds of every store the program reaches: either the database cannot be reached
  and nobody has been added, or the table has the full schema, its keys are distinct and
  are the users added, and every row has its three contact fields all set or all unset.
\<close>

definition sound_store :: "dbfile \<Rightarrow> int set \<Rightarrow> bool" where
  "sound_store d U =
     (case d of
        Unreachable \<Rightarrow> U = {}
      | Db (Some t) \<Rightarrow>
          cols t = ALL_COLUMNS \<and> distinct (map fst (rows t)) \<and> fst ` set (rows t) = U \<and>
          (\<forall>(k, r) \<in> set (rows t).
              complete r \<or> (real_name r = None \<and> age r = None \<and> phone r = None))
      | _ \<Rightarrow> False)"

text \<open>
  Two more examples. In \<open>custom_then_fixed\<close> the process starts on an empty directory,
  user 1 sends \<open>/start\<close>, describes an own problem and then chooses the category of
  anxiety. \<open>one_lead\<close> is the store after user 1 has been added and has left contact data.
\<close>

definition idle :: fsm_context where
  "idle = \<lparr>state = None, data_name = None, data_age = None\<rparr>"

definition custom_then_fixed :: world where
  "custom_then_fixed =
     handle_problem_selection 1 ANXIETY
       (after (handle_custom_problem_input 1
                 (Some (lit ''Feeling exhausted all the time and losing interest''))
          (handle_custom_problem_start
             (after (command_start 1 (Some (lit ''anna_t'')) (lit ''Anna T'') 0
                \<lparr>ctx = idle, db = fst (on_startup 0 Missing), sent = []\<rparr>)))))"

definition one_lead :: dbfile where
  "one_lead =
     snd (update_user_contact_info 1 (lit ''Anna'') 29 (lit ''anna_t'')
       (snd (add_user 1 (lit ''anna_t'') (lit ''Anna T'') 0 (snd (init_database Missing)))))"

section \<open>Properties\<close>

lemmas str_eval = lit_def strip_def isspace_def py_int_def c_isspace_def to_ascii_def digits_run_def

lemmas store_eval = users_table_def opened_def records_def has_cols_def ALL_COLUMNS_def
  update_where_def new_row_def insert_or_ignore_def truthy_def

lemma asking_db:
  "db (asking f) = Db (Some \<lparr>cols = ALL_COLUMNS,
                     rows = [(1, new_row (lit ''anna_t'') (lit ''Anna T'') 0)]\<rparr>)"
  by (simp add: asking_def)

lemma one_lead_eq:
  "one_lead = Db (Some \<lparr>cols = ALL_COLUMNS,
      rows = [(1, (new_row (lit ''anna_t'') (lit ''Anna T'') 0)
                \<lparr>real_name := Some (lit ''Anna''), age := Some 29, phone := Some (lit ''anna_t'')\<rparr>)]\<rparr>)"
  by (simp add: one_lead_def init_database_def path_exists_def add_user_def
      update_user_contact_info_def users_table_def has_cols_def ALL_COLUMNS_def
      insert_or_ignore_def update_where_def)

lemma answer_ctx [simp]: "ctx (answer m w) = ctx w"
  by (simp add: answer_def)

lemma answer_db [simp]: "db (answer m w) = db w"
  by (simp add: answer_def)

subsection \<open>What the four input handlers do with an input\<close>

lemma age_accept:
  "py_int dec (strip t) = Some a \<Longrightarrow> 10 \<le> a \<Longrightarrow> a \<le> 100 \<Longrightarrow>
   handle_age_input dec (Some t) w =
     (Returned, w\<lparr>ctx := (ctx w)\<lparr>data_age := Some a, state := Some Form_phone\<rparr>,
                  sent := sent w @ [Ask_username a]\<rparr>)"
  by (simp add: handle_age_input_def answer_def set_state_def Let_def)

lemma age_reject:
  assumes "\<not> (\<exists>a. py_int dec (strip t) = Some a \<and> 10 \<le> a \<and> a \<le> 100)"
  shows "handle_age_input dec (Some t) w =
     (Returned, answer (if py_int dec (strip t) = None then Age_not_digits else Age_out_of_range) w)"
proof (cases "py_int dec (strip t)")
  case None
  then show ?thesis by (simp add: handle_age_input_def)
next
  case (Some a)
  with assms have "a < 10 \<or> a > 100" by auto
  with Some show ?thesis by (simp add: handle_age_input_def)
qed

lemma name_reject:
  "length (strip t) < 2 \<Longrightarrow> handle_name_input (Some t) w = (Returned, answer Name_too_short w)"
  by (simp add: handle_name_input_def)

lemma custom_reject:
  "length (strip t) < 10 \<Longrightarrow>
   handle_custom_problem_input uid (Some t) w = (Returned, answer Problem_too_short w)"
  by (simp add: handle_custom_problem_input_def)

lemma phone_reject:
  "length (strip t) < 3 \<Longrightarrow>
   handle_phone_input A uid (Some t) w = (Returned, answer Username_too_short w)"
  by (simp add: handle_phone_input_def)

lemma phone_accept:
  "3 \<le> length (strip t) \<Longrightarrow>
   after (handle_phone_input A uid (Some t) w) =
     (let u = (if startswith_at (strip t) then tl (strip t) else strip t);
          name = (case data_name (ctx w) of Some n \<Rightarrow> n | None \<Rightarrow> NOT_GIVEN_NAME);
          a = (case data_age (ctx w) of Some n \<Rightarrow> n | None \<Rightarrow> 0);
          shown = fst (problem_display_of uid (db w));
          d = snd (update_user_contact_info uid name a u (snd (problem_display_of uid (db w))))
      in \<lparr>ctx = clear (ctx w), db = d,
          sent = sent w @ Request_accepted #
                   (if A \<noteq> 0 then [Admin_request name a shown u uid] else [])\<rparr>)"
  by (simp add: handle_phone_input_def after_def Let_def answer_def split: prod.splits)

lemma phone_state:
  assumes "state (ctx w) = Some Form_phone"
  shows "state (ctx (after (handle_phone_input A uid (Some t) w))) = None \<longleftrightarrow> 3 \<le> length (strip t)"
proof (cases "3 \<le> length (strip t)")
  case True
  then show ?thesis by (simp add: phone_accept Let_def clear_def)
next
  case False
  then have "length (strip t) < 3" by simp
  then show ?thesis using assms by (simp add: phone_reject after_def)
qed

lemma age_attempts:
  "\<forall>t \<in> set ts. \<not> (\<exists>a. py_int dec (strip t) = Some a \<and> 10 \<le> a \<and> a \<le> 100) \<Longrightarrow>
   ctx (foldl (\<lambda>w t. after (handle_age_input dec (Some t) w)) w ts) = ctx w \<and>
   db (foldl (\<lambda>w t. after (handle_age_input dec (Some t) w)) w ts) = db w"
proof (induction ts arbitrary: w)
  case Nil
  show ?case by simp
next
  case (Cons t ts)
  from Cons.prems have t: "\<not> (\<exists>a. py_int dec (strip t) = Some a \<and> 10 \<le> a \<and> a \<le> 100)"
    and ts: "\<forall>t \<in> set ts. \<not> (\<exists>a. py_int dec (strip t) = Some a \<and> 10 \<le> a \<and> a \<le> 100)"
    by simp_all
  show ?case
    using Cons.IH [OF ts, of "after (handle_age_input dec (Some t) w)"]
    by (simp add: age_reject [OF t] after_def)
qed

lemma age_state:
  assumes "state (ctx w) = Some Form_age"
  shows "(\<exists>a. py_int dec (strip t) = Some a \<and> 10 \<le> a \<and> a \<le> 100) \<longleftrightarrow>
         (\<exists>a. py_int dec (strip t) = Some a \<and>
              ctx (after (handle_age_input dec (Some t) w)) =
                (ctx w)\<lparr>data_age := Some a, state := Some Form_phone\<rparr>)"
proof (cases "\<exists>a. py_int dec (strip t) = Some a \<and> 10 \<le> a \<and> a \<le> 100")
  case True
  then obtain a where a: "py_int dec (strip t) = Some a" "10 \<le> a" "a \<le> 100" by blast
  from age_accept [OF a] have "ctx (after (handle_age_input dec (Some t) w)) =
      (ctx w)\<lparr>data_age := Some a, state := Some Form_phone\<rparr>"
    by (simp add: after_def)
  with a True show ?thesis by blast
next
  case False
  from age_reject [OF False] have "ctx (after (handle_age_input dec (Some t) w)) = ctx w"
    by (simp add: after_def)
  then have st: "state (ctx (after (handle_age_input dec (Some t) w))) = Some Form_age"
    using assms by simp
  have "\<And>a. ctx (after (handle_age_input dec (Some t) w)) \<noteq>
                 (ctx w)\<lparr>data_age := Some a, state := Some Form_phone\<rparr>"
  proof
    fix a
    assume "ctx (after (handle_age_input dec (Some t) w)) =
                 (ctx w)\<lparr>data_age := Some a, state := Some Form_phone\<rparr>"
    then have "state (ctx (after (handle_age_input dec (Some t) w))) = Some Form_phone"
      by simp
    with st show False by simp
  qed
  with False show ?thesis by blast
qed

subsection \<open>The age\<close>

text \<open>
  Claim C7. In the state \<open>Form.age\<close> the age is committed (it is put into the
  conversation data and the dialogue moves on to the contact) exactly when the trimmed
  input is read by \<open>int\<close> as an integer from 10 to 100. The input 25 is committed; 9,
  101 and abc leave the context as it was.
\<close>

theorem age_committed_iff_in_range:
  assumes "state (ctx w) = Some Form_age"
  shows "((\<exists>a. py_int dec (strip t) = Some a \<and> 10 \<le> a \<and> a \<le> 100) \<longleftrightarrow>
          (\<exists>a. py_int dec (strip t) = Some a \<and>
               ctx (after (handle_age_input dec (Some t) w)) =
                 (ctx w)\<lparr>data_age := Some a, state := Some Form_phone\<rparr>)) \<and>
         ctx (after (handle_age_input dec (Some (lit ''25'')) w)) =
           (ctx w)\<lparr>data_age := Some 25, state := Some Form_phone\<rparr> \<and>
         ctx (after (handle_age_input dec (Some (lit ''9'')) w)) = ctx w \<and>
         ctx (after (handle_age_input dec (Some (lit ''101'')) w)) = ctx w \<and>
         ctx (after (handle_age_input dec (Some (lit ''abc'')) w)) = ctx w"
proof (intro conjI)
  show "(\<exists>a. py_int dec (strip t) = Some a \<and> 10 \<le> a \<and> a \<le> 100) \<longleftrightarrow>
        (\<exists>a. py_int dec (strip t) = Some a \<and>
             ctx (after (handle_age_input dec (Some t) w)) =
               (ctx w)\<lparr>data_age := Some a, state := Some Form_phone\<rparr>)"
    by (rule age_state [OF assms])
next
  have "py_int dec (strip (lit ''25'')) = Some 25" by (simp add: str_eval)
  then show "ctx (after (handle_age_input dec (Some (lit ''25'')) w)) =
           (ctx w)\<lparr>data_age := Some 25, state := Some Form_phone\<rparr>"
    by (simp add: age_accept after_def)
next
  have "py_int dec (strip (lit ''9'')) = Some 9" by (simp add: str_eval)
  then have "\<not> (\<exists>a. py_int dec (strip (lit ''9'')) = Some a \<and> 10 \<le> a \<and> a \<le> 100)" by simp
  then show "ctx (after (handle_age_input dec (Some (lit ''9'')) w)) = ctx w"
    by (simp add: age_reject after_def)
next
  have "py_int dec (strip (lit ''101'')) = Some 101" by (simp add: str_eval)
  then have "\<not> (\<exists>a. py_int dec (strip (lit ''101'')) = Some a \<and> 10 \<le> a \<and> a \<le> 100)" by simp
  then show "ctx (after (handle_age_input dec (Some (lit ''101'')) w)) = ctx w"
    by (simp add: age_reject after_def)
next
  have "py_int dec (strip (lit ''abc'')) = None" by (simp add: str_eval)
  then have "\<not> (\<exists>a. py_int dec (strip (lit ''abc'')) = Some a \<and> 10 \<le> a \<and> a \<le> 100)" by simp
  then show "ctx (after (handle_age_input dec (Some (lit ''abc'')) w)) = ctx w"
    by (simp add: age_reject after_def)
qed

theorem age_committed_iff_in_range_witness:
  "state (ctx (asking Form_age)) = Some Form_age \<and>
   ctx (after (handle_age_input (\<lambda>c. None) (Some (lit ''25'')) (asking Form_age))) =
     \<lparr>state = Some Form_phone, data_name = Some (lit ''Anna''), data_age = Some 25\<rparr> \<and>
   ctx (after (handle_age_input (\<lambda>c. None) (Some (lit ''101'')) (asking Form_age))) =
     \<lparr>state = Some Form_age, data_name = Some (lit ''Anna''), data_age = Some 29\<rparr>"
proof -
  have h: "state (ctx (asking Form_age)) = Some Form_age" by (simp add: asking_def)
  show ?thesis
    using h age_committed_iff_in_range [OF h, of "\<lambda>c. None" "lit ''25''"]
    by (simp add: asking_def)
qed

subsection \<open>An input that is refused\<close>

text \<open>
  Claim C5. In each of the four states that take a text (the user's own problem, the
  name, the age, the contact) an input that the handler's check refuses leaves the
  context, that is the state and the conversation data, and the database as they were.
  After any number of refused ages in a row the context is still the one before the
  first of them. The check of the contact is the handler's: fewer than three characters
  after trimming.
\<close>

theorem failed_validation_keeps_state:
  "(length (strip t) < 10 \<longrightarrow>
      ctx (after (handle_custom_problem_input uid (Some t) w)) = ctx w \<and>
      db (after (handle_custom_problem_input uid (Some t) w)) = db w) \<and>
   (length (strip t) < 2 \<longrightarrow>
      ctx (after (handle_name_input (Some t) w)) = ctx w \<and>
      db (after (handle_name_input (Some t) w)) = db w) \<and>
   (\<not> (\<exists>a. py_int dec (strip t) = Some a \<and> 10 \<le> a \<and> a \<le> 100) \<longrightarrow>
      ctx (after (handle_age_input dec (Some t) w)) = ctx w \<and>
      db (after (handle_age_input dec (Some t) w)) = db w) \<and>
   (length (strip t) < 3 \<longrightarrow>
      ctx (after (handle_phone_input A uid (Some t) w)) = ctx w \<and>
      db (after (handle_phone_input A uid (Some t) w)) = db w) \<and>
   ((\<forall>t \<in> set ts. \<not> (\<exists>a. py_int dec (strip t) = Some a \<and> 10 \<le> a \<and> a \<le> 100)) \<longrightarrow>
      ctx (foldl (\<lambda>w t. after (handle_age_input dec (Some t) w)) w ts) = ctx w \<and>
      db (foldl (\<lambda>w t. after (handle_age_input dec (Some t) w)) w ts) = db w)"
proof (intro conjI impI)
  assume "length (strip t) < 10"
  then show "ctx (after (handle_custom_problem_input uid (Some t) w)) = ctx w"
    and "db (after (handle_custom_problem_input uid (Some t) w)) = db w"
    by (simp_all add: custom_reject after_def)
next
  assume "length (strip t) < 2"
  then show "ctx (after (handle_name_input (Some t) w)) = ctx w"
    and "db (after (handle_name_input (Some t) w)) = db w"
    by (simp_all add: name_reject after_def)
next
  assume "\<not> (\<exists>a. py_int dec (strip t) = Some a \<and> 10 \<le> a \<and> a \<le> 100)"
  then show "ctx (after (handle_age_input dec (Some t) w)) = ctx w"
    and "db (after (handle_age_input dec (Some t) w)) = db w"
    by (simp_all add: age_reject after_def)
next
  assume "length (strip t) < 3"
  then show "ctx (after (handle_phone_input A uid (Some t) w)) = ctx w"
    and "db (after (handle_phone_input A uid (Some t) w)) = db w"
    by (simp_all add: phone_reject after_def)
next
  assume "\<forall>t \<in> set ts. \<not> (\<exists>a. py_int dec (strip t) = Some a \<and> 10 \<le> a \<and> a \<le> 100)"
  then show "ctx (foldl (\<lambda>w t. after (handle_age_input dec (Some t) w)) w ts) = ctx w"
    and "db (foldl (\<lambda>w t. after (handle_age_input dec (Some t) w)) w ts) = db w"
    using age_attempts by blast+
qed

theorem failed_validation_keeps_state_witness:
  "length (strip (lit '' x '')) < 2 \<and>
   py_int (\<lambda>c. None) (strip (lit '' x '')) = None \<and>
   map (py_int (\<lambda>c. None) \<circ> strip) [lit ''9'', lit ''abc'', lit ''101''] =
     [Some 9, None, Some 101] \<and>
   ctx (after (handle_custom_problem_input 1 (Some (lit '' x '')) (asking Form_custom_problem))) =
     ctx (asking Form_custom_problem) \<and>
   ctx (after (handle_name_input (Some (lit '' x '')) (asking Form_name))) = ctx (asking Form_name) \<and>
   ctx (after (handle_age_input (\<lambda>c. None) (Some (lit '' x '')) (asking Form_age))) =
     ctx (asking Form_age) \<and>
   db (after (handle_phone_input 0 1 (Some (lit '' x '')) (asking Form_phone))) =
     db (asking Form_phone) \<and>
   ctx (foldl (\<lambda>w t. after (handle_age_input (\<lambda>c. None) (Some t) w)) (asking Form_age)
          [lit ''9'', lit ''abc'', lit ''101'']) = ctx (asking Form_age)"
proof -
  have len: "length (strip (lit '' x '')) = 1" by (simp add: str_eval)
  have x: "py_int (\<lambda>c. None) (strip (lit '' x '')) = None" by (simp add: str_eval)
  have a9: "py_int (\<lambda>c. None) (strip (lit ''9'')) = Some 9" by (simp add: str_eval)
  have abc: "py_int (\<lambda>c. None) (strip (lit ''abc'')) = None" by (simp add: str_eval)
  have a101: "py_int (\<lambda>c. None) (strip (lit ''101'')) = Some 101" by (simp add: str_eval)
  show ?thesis
    using failed_validation_keeps_state
            [of "lit '' x ''" 1 "asking Form_custom_problem" "\<lambda>c. None" 0 "[]"]
          failed_validation_keeps_state
            [of "lit '' x ''" 1 "asking Form_name" "\<lambda>c. None" 0 "[]"]
          failed_validation_keeps_state
            [of "lit '' x ''" 1 "asking Form_phone" "\<lambda>c. None" 0 "[]"]
          failed_validation_keeps_state
            [of "lit '' x ''" 1 "asking Form_age" "\<lambda>c. None" 0 "[lit ''9'', lit ''abc'', lit ''101'']"]
    by (simp add: len x a9 abc a101)
qed

subsection \<open>The contact\<close>

text \<open>
  Claim C1, as the specification has it, asks for three characters after the leading
  \<open>@\<close> has been taken off, so that \<open>@ab\<close> would be refused. The handler measures the
  trimmed text before it takes the \<open>@\<close> off: \<open>@ab\<close> is accepted and \<open>ab\<close> is stored.
\<close>

theorem contact_at_ab_accepted:
  "state (ctx (after (handle_phone_input 0 1 (Some (lit ''@ab'')) (asking Form_phone)))) = None \<and>
   map (\<lambda>(k, r). phone r)
     (records (db (after (handle_phone_input 0 1 (Some (lit ''@ab'')) (asking Form_phone))))) =
     [Some (lit ''ab'')] \<and>
   length (lit ''ab'') = 2"
  by (simp add: handle_phone_input_def after_def asking_def answer_def clear_def Let_def
      problem_display_of_def update_user_contact_info_def startswith_at_def PROBLEM_NAMES_def
      NOT_GIVEN_PROBLEM_def CUSTOM_def ANXIETY_def RELATIONS_def SELF_def
      store_eval str_eval)

text \<open>
  Claim C1, amended. In the state \<open>Form.phone\<close> an input is accepted (the dialogue ends
  and the contact data are written) exactly when the trimmed text has at least three
  characters, a leading \<open>@\<close> counted; what is written is the trimmed text without one
  leading \<open>@\<close>. So \<open>@ab\<close>, \<open>@abc\<close> and \<open>abc\<close> are accepted and \<open>ab\<close> is refused.
\<close>

theorem contact_length_checked_before_at:
  assumes "state (ctx w) = Some Form_phone"
  shows "(state (ctx (after (handle_phone_input A uid (Some t) w))) = None \<longleftrightarrow> 3 \<le> length (strip t)) \<and>
    (3 \<le> length (strip t) \<longrightarrow>
       db (after (handle_phone_input A uid (Some t) w)) =
         snd (update_user_contact_info uid
               (case data_name (ctx w) of Some n \<Rightarrow> n | None \<Rightarrow> NOT_GIVEN_NAME)
               (case data_age (ctx w) of Some n \<Rightarrow> n | None \<Rightarrow> 0)
               (if startswith_at (strip t) then tl (strip t) else strip t)
               (snd (problem_display_of uid (db w))))) \<and>
    state (ctx (after (handle_phone_input A uid (Some (lit ''@ab'')) w))) = None \<and>
    state (ctx (after (handle_phone_input A uid (Some (lit ''@abc'')) w))) = None \<and>
    state (ctx (after (handle_phone_input A uid (Some (lit ''abc'')) w))) = None \<and>
    state (ctx (after (handle_phone_input A uid (Some (lit ''ab'')) w))) = Some Form_phone"
proof (intro conjI impI)
  show "state (ctx (after (handle_phone_input A uid (Some t) w))) = None \<longleftrightarrow> 3 \<le> length (strip t)"
    by (rule phone_state [OF assms])
next
  assume "3 \<le> length (strip t)"
  then show "db (after (handle_phone_input A uid (Some t) w)) =
         snd (update_user_contact_info uid
               (case data_name (ctx w) of Some n \<Rightarrow> n | None \<Rightarrow> NOT_GIVEN_NAME)
               (case data_age (ctx w) of Some n \<Rightarrow> n | None \<Rightarrow> 0)
               (if startswith_at (strip t) then tl (strip t) else strip t)
               (snd (problem_display_of uid (db w))))"
    by (simp add: phone_accept Let_def)
next
  have "3 \<le> length (strip (lit ''@ab''))" by (simp add: str_eval)
  then show "state (ctx (after (handle_phone_input A uid (Some (lit ''@ab'')) w))) = None"
    using phone_state [OF assms] by blast
next
  have "3 \<le> length (strip (lit ''@abc''))" by (simp add: str_eval)
  then show "state (ctx (after (handle_phone_input A uid (Some (lit ''@abc'')) w))) = None"
    using phone_state [OF assms] by blast
next
  have "3 \<le> length (strip (lit ''abc''))" by (simp add: str_eval)
  then show "state (ctx (after (handle_phone_input A uid (Some (lit ''abc'')) w))) = None"
    using phone_state [OF assms] by blast
next
  have "length (strip (lit ''ab'')) < 3" by (simp add: str_eval)
  then show "state (ctx (after (handle_phone_input A uid (Some (lit ''ab'')) w))) = Some Form_phone"
    using assms by (simp add: phone_reject after_def)
qed

theorem contact_length_checked_before_at_witness:
  "state (ctx (asking Form_phone)) = Some Form_phone \<and>
   3 \<le> length (strip (lit ''@anna_t'')) \<and>
   state (ctx (after (handle_phone_input 0 1 (Some (lit ''@anna_t'')) (asking Form_phone)))) = None \<and>
   state (ctx (after (handle_phone_input 0 1 (Some (lit ''ab'')) (asking Form_phone)))) = Some Form_phone"
proof -
  have h: "state (ctx (asking Form_phone)) = Some Form_phone" by (simp add: asking_def)
  have l: "length (strip (lit ''@anna_t'')) = 7" by (simp add: str_eval)
  show ?thesis
    using h contact_length_checked_before_at [OF h, of 0 1 "lit ''@anna_t''"] by (simp add: l)
qed

subsection \<open>The functions of the store\<close>

lemma users_table_Db [simp]: "users_table (Db (Some t)) = Some t"
  by (simp add: users_table_def)

lemma users_table_Some: "users_table d = Some t \<longleftrightarrow> d = Db (Some t)"
  by (cases d) (simp_all add: users_table_def split: option.splits)

lemma records_Db [simp]: "records (Db (Some t)) = rows t"
  by (simp add: records_def users_table_def)

lemma records_opened [simp]: "users_table d = None \<Longrightarrow> records (opened d) = records d"
  by (cases d) (simp_all add: records_def users_table_def opened_def split: option.splits)

lemma update_where_keys [simp]: "map fst (update_where k f rs) = map fst rs"
  by (induction rs) (auto simp add: update_where_def)

lemma update_where_absent: "k \<notin> fst ` set rs \<Longrightarrow> update_where k f rs = rs"
  by (induction rs) (auto simp add: update_where_def)

lemma update_where_pointwise:
  "list_all2 (\<lambda>(k, r) (k', r'). k' = k \<and> r' = (if k = uid then f r else r))
     rs (update_where uid f rs)"
  by (induction rs) (auto simp add: update_where_def split: if_splits)

text \<open>
  Claim C6. \<open>update_user_contact_info\<close> writes the name, the age and the contact
  together or not at all: either it returns \<open>True\<close> and every row of the user has the
  three new values, every other row and every other column being as before, or it
  returns \<open>False\<close> and the records are the ones before. A table that lacks one of the
  three columns makes the whole statement fail.
\<close>

theorem contact_info_all_or_nothing:
  "(fst (update_user_contact_info uid n a p d) \<and>
    list_all2 (\<lambda>(k, r) (k', r'). k' = k \<and>
                 r' = (if k = uid then r\<lparr>real_name := Some n, age := Some a, phone := Some p\<rparr> else r))
      (records d) (records (snd (update_user_contact_info uid n a p d)))) \<or>
   (\<not> fst (update_user_contact_info uid n a p d) \<and>
    records (snd (update_user_contact_info uid n a p d)) = records d)"
proof (cases "users_table d")
  case None
  then show ?thesis by (simp add: update_user_contact_info_def)
next
  case (Some t)
  then have d: "d = Db (Some t)" by (simp add: users_table_Some)
  show ?thesis
  proof (cases "has_cols [''real_name'', ''age'', ''phone'', ''user_id''] t")
    case True
    with Some d show ?thesis
      by (simp add: update_user_contact_info_def update_where_pointwise)
  next
    case False
    with Some d show ?thesis by (simp add: update_user_contact_info_def)
  qed
qed

theorem contact_info_all_or_nothing_witness:
  "\<not> fst (update_user_contact_info 1 (lit ''Anna'') 29 (lit ''anna_t'')
       (Db (Some \<lparr>cols = [''user_id'', ''real_name'', ''age''],
                  rows = [(1, new_row (lit ''anna_t'') (lit ''Anna T'') 0)]\<rparr>))) \<and>
   records (snd (update_user_contact_info 1 (lit ''Anna'') 29 (lit ''anna_t'')
       (Db (Some \<lparr>cols = [''user_id'', ''real_name'', ''age''],
                  rows = [(1, new_row (lit ''anna_t'') (lit ''Anna T'') 0)]\<rparr>)))) =
     [(1, new_row (lit ''anna_t'') (lit ''Anna T'') 0)] \<and>
   fst (update_user_contact_info 1 (lit ''Anna'') 29 (lit ''anna_t'') (db (asking Form_phone))) \<and>
   records (snd (update_user_contact_info 1 (lit ''Anna'') 29 (lit ''anna_t'') (db (asking Form_phone)))) =
     [(1, (new_row (lit ''anna_t'') (lit ''Anna T'') 0)
            \<lparr>real_name := Some (lit ''Anna''), age := Some 29, phone := Some (lit ''anna_t'')\<rparr>)]"
proof -
  have f: "\<not> fst (update_user_contact_info 1 (lit ''Anna'') 29 (lit ''anna_t'')
       (Db (Some \<lparr>cols = [''user_id'', ''real_name'', ''age''],
                  rows = [(1, new_row (lit ''anna_t'') (lit ''Anna T'') 0)]\<rparr>)))"
    by (simp add: update_user_contact_info_def has_cols_def)
  have t: "fst (update_user_contact_info 1 (lit ''Anna'') 29 (lit ''anna_t'') (db (asking Form_phone)))"
    by (simp add: asking_db update_user_contact_info_def has_cols_def ALL_COLUMNS_def)
  show ?thesis
    using f t
      contact_info_all_or_nothing [of 1 "lit ''Anna''" 29 "lit ''anna_t''"
        "Db (Some \<lparr>cols = [''user_id'', ''real_name'', ''age''],
                  rows = [(1, new_row (lit ''anna_t'') (lit ''Anna T'') 0)]\<rparr>)"]
      contact_info_all_or_nothing [of 1 "lit ''Anna''" 29 "lit ''anna_t''" "db (asking Form_phone)"]
    by (simp add: asking_db list_all2_Cons1)
qed

text \<open>
  Claim C10. For a user identifier that has no row in a table of the full schema,
  \<open>update_user_problem\<close> and \<open>update_user_contact_info\<close> return \<open>True\<close> and leave
  the database exactly as it was: no row is changed and none is created.
\<close>

theorem update_absent_user_reports_success:
  assumes "users_table d = Some t" and "has_cols ALL_COLUMNS t" and "uid \<notin> fst ` set (rows t)"
  shows "update_user_problem uid seg cp d = (True, d) \<and>
         update_user_contact_info uid n a p d = (True, d)"
proof -
  from assms(1) have d: "d = Db (Some t)" by (simp add: users_table_Some)
  have c1: "has_cols [''problem_segment'', ''custom_problem'', ''user_id''] t"
    and c2: "has_cols [''problem_segment'', ''user_id''] t"
    and c3: "has_cols [''real_name'', ''age'', ''phone'', ''user_id''] t"
    using assms(2) by (auto simp add: has_cols_def ALL_COLUMNS_def)
  have "update_user_problem uid seg cp d = (True, d)"
    using assms(1,3) c1 c2 by (simp add: update_user_problem_def update_where_absent d)
  moreover have "update_user_contact_info uid n a p d = (True, d)"
    using assms(1,3) c3 by (simp add: update_user_contact_info_def update_where_absent d)
  ultimately show ?thesis by simp
qed

theorem update_absent_user_reports_success_witness:
  "users_table (db (asking Form_phone)) =
     Some \<lparr>cols = ALL_COLUMNS, rows = [(1, new_row (lit ''anna_t'') (lit ''Anna T'') 0)]\<rparr> \<and>
   has_cols ALL_COLUMNS
     \<lparr>cols = ALL_COLUMNS, rows = [(1, new_row (lit ''anna_t'') (lit ''Anna T'') 0)]\<rparr> \<and>
   2 \<notin> fst ` set [(1 :: int, new_row (lit ''anna_t'') (lit ''Anna T'') 0)] \<and>
   update_user_problem 2 NAME_RELATIONS None (db (asking Form_phone)) = (True, db (asking Form_phone)) \<and>
   update_user_contact_info 2 (lit ''Boris'') 40 (lit ''boris'') (db (asking Form_phone)) =
     (True, db (asking Form_phone))"
proof -
  have u: "users_table (db (asking Form_phone)) =
     Some \<lparr>cols = ALL_COLUMNS, rows = [(1, new_row (lit ''anna_t'') (lit ''Anna T'') 0)]\<rparr>"
    by (simp add: asking_db)
  have h: "has_cols ALL_COLUMNS
     \<lparr>cols = ALL_COLUMNS, rows = [(1, new_row (lit ''anna_t'') (lit ''Anna T'') 0)]\<rparr>"
    by (simp add: has_cols_def)
  have k: "2 \<notin> fst ` set (rows \<lparr>cols = ALL_COLUMNS,
                                rows = [(1, new_row (lit ''anna_t'') (lit ''Anna T'') 0)]\<rparr>)"
    by simp
  show ?thesis
    using u h update_absent_user_reports_success [OF u h k, of NAME_RELATIONS None "lit ''Boris''" 40 "lit ''boris''"]
    by simp
qed

lemma count_key:
  "distinct (map fst rs) \<Longrightarrow> k \<in> fst ` set rs \<Longrightarrow> length (filter (\<lambda>(k', r). k' = k) rs) = 1"
proof (induction rs)
  case Nil
  then show ?case by simp
next
  case (Cons x rs)
  obtain k' r where x: "x = (k', r)" by (cases x)
  show ?case
  proof (cases "k' = k")
    case True
    with Cons.prems x have "k \<notin> fst ` set rs" by auto
    then have "filter (\<lambda>(k', r). k' = k) rs = []"
      by (force simp add: filter_empty_conv)
    with True x show ?thesis by simp
  next
    case False
    with Cons x show ?thesis by auto
  qed
qed

lemma insert_or_ignore_distinct:
  "distinct (map fst rs) \<Longrightarrow> distinct (map fst (insert_or_ignore k r rs))"
  by (auto simp add: insert_or_ignore_def)

lemma insert_or_ignore_keys: "fst ` set (insert_or_ignore k r rs) = insert k (fst ` set rs)"
  by (auto simp add: insert_or_ignore_def)

lemma insert_or_ignore_present: "k \<in> fst ` set rs \<Longrightarrow> insert_or_ignore k r rs = rs"
  by (simp add: insert_or_ignore_def)

lemma add_user_intact:
  assumes "has_cols ALL_COLUMNS t"
  shows "add_user uid un fn now (Db (Some t)) =
           (True, Db (Some (t\<lparr>rows := insert_or_ignore uid (new_row un fn now) (rows t)\<rparr>)))"
proof -
  have "has_cols [''user_id'', ''username'', ''full_name''] t"
    using assms by (auto simp add: has_cols_def ALL_COLUMNS_def)
  then show ?thesis by (simp add: add_user_def users_table_def)
qed

lemma user_exists_intact:
  assumes "has_cols ALL_COLUMNS t"
  shows "user_exists uid (Db (Some t)) = (uid \<in> fst ` set (rows t), Db (Some t))"
proof -
  have "has_cols [''user_id''] t"
    using assms by (auto simp add: has_cols_def ALL_COLUMNS_def)
  then show ?thesis by (simp add: user_exists_def users_table_def)
qed

lemma check_schema_intact:
  assumes "has_cols ALL_COLUMNS t"
  shows "check_schema (Db (Some t)) = Db (Some t)"
proof -
  have "filter (\<lambda>c. c \<notin> set (cols t)) REQUIRED_COLUMNS = []"
    using assms by (auto simp add: has_cols_def ALL_COLUMNS_def REQUIRED_COLUMNS_def)
  then show ?thesis by (simp add: check_schema_def path_exists_def users_table_def)
qed

lemma command_start_intact:
  assumes "has_cols ALL_COLUMNS t" and "db w = Db (Some t)"
  shows "db (after (command_start uid un fn now w)) =
           Db (Some (t\<lparr>rows := insert_or_ignore uid
                 (new_row (if truthy un then the un else NOT_GIVEN_USERNAME) fn now) (rows t)\<rparr>))"
  using assms
  by (simp add: command_start_def after_def Let_def check_schema_intact user_exists_intact
      add_user_intact insert_or_ignore_def)

lemma has_cols_rows [simp]: "has_cols cs (t\<lparr>rows := rs\<rparr>) = has_cols cs t"
  by (simp add: has_cols_def)

text \<open>
  Claim C8. On a table of the full schema with distinct keys, \<open>add_user\<close> called twice
  for one user identifier, with any names and at any times, succeeds both times, leaves
  exactly one row for the identifier, and the second call changes nothing. The same
  holds for two \<open>/start\<close> commands of one user.
\<close>

theorem create_if_absent_twice:
  assumes "users_table d = Some t" and "has_cols ALL_COLUMNS t" and "distinct (map fst (rows t))"
  shows "fst (add_user uid un1 fn1 now1 d) \<and>
    add_user uid un2 fn2 now2 (snd (add_user uid un1 fn1 now1 d)) =
      (True, snd (add_user uid un1 fn1 now1 d)) \<and>
    length (filter (\<lambda>(k, r). k = uid)
      (records (snd (add_user uid un2 fn2 now2 (snd (add_user uid un1 fn1 now1 d)))))) = 1 \<and>
    (db w = d \<longrightarrow>
       db (after (command_start uid u2 f2 n2 (after (command_start uid u1 f1 n1 w)))) =
         db (after (command_start uid u1 f1 n1 w)) \<and>
       length (filter (\<lambda>(k, r). k = uid)
         (records (db (after (command_start uid u2 f2 n2 (after (command_start uid u1 f1 n1 w))))))) = 1)"
proof -
  from assms(1) have d: "d = Db (Some t)" by (simp add: users_table_Some)
  define t1 where "t1 = t\<lparr>rows := insert_or_ignore uid (new_row un1 fn1 now1) (rows t)\<rparr>"
  have first: "add_user uid un1 fn1 now1 d = (True, Db (Some t1))"
    by (simp add: d t1_def add_user_intact [OF assms(2)])
  have c1: "has_cols ALL_COLUMNS t1" using assms(2) by (simp add: t1_def)
  have k1: "uid \<in> fst ` set (rows t1)" by (simp add: t1_def insert_or_ignore_keys)
  have d1: "distinct (map fst (rows t1))"
    using assms(3) by (simp add: t1_def insert_or_ignore_distinct)
  have second: "add_user uid un2 fn2 now2 (Db (Some t1)) = (True, Db (Some t1))"
    by (simp add: add_user_intact [OF c1] insert_or_ignore_present [OF k1])
  have one: "length (filter (\<lambda>(k, r). k = uid) (rows t1)) = 1"
    by (rule count_key [OF d1 k1])
  have start: "db w = d \<longrightarrow>
       db (after (command_start uid u2 f2 n2 (after (command_start uid u1 f1 n1 w)))) =
         db (after (command_start uid u1 f1 n1 w)) \<and>
       length (filter (\<lambda>(k, r). k = uid)
         (records (db (after (command_start uid u2 f2 n2 (after (command_start uid u1 f1 n1 w))))))) = 1"
  proof
    assume w: "db w = d"
    define t2 where "t2 = t\<lparr>rows := insert_or_ignore uid
        (new_row (if truthy u1 then the u1 else NOT_GIVEN_USERNAME) f1 n1) (rows t)\<rparr>"
    have s1: "db (after (command_start uid u1 f1 n1 w)) = Db (Some t2)"
      using command_start_intact [OF assms(2), of w uid u1 f1 n1] w d by (simp add: t2_def)
    have c2: "has_cols ALL_COLUMNS t2" using assms(2) by (simp add: t2_def)
    have k2: "uid \<in> fst ` set (rows t2)" by (simp add: t2_def insert_or_ignore_keys)
    have d2: "distinct (map fst (rows t2))"
      using assms(3) by (simp add: t2_def insert_or_ignore_distinct)
    have s2: "db (after (command_start uid u2 f2 n2 (after (command_start uid u1 f1 n1 w)))) =
                Db (Some t2)"
      using command_start_intact [OF c2 s1, of uid u2 f2 n2]
      by (simp add: insert_or_ignore_present [OF k2])
    show "db (after (command_start uid u2 f2 n2 (after (command_start uid u1 f1 n1 w)))) =
         db (after (command_start uid u1 f1 n1 w)) \<and>
       length (filter (\<lambda>(k, r). k = uid)
         (records (db (after (command_start uid u2 f2 n2 (after (command_start uid u1 f1 n1 w))))))) = 1"
      by (simp add: s1 s2 count_key [OF d2 k2])
  qed
  show ?thesis
  proof (intro conjI)
    show "fst (add_user uid un1 fn1 now1 d)" by (simp add: first)
    show "add_user uid un2 fn2 now2 (snd (add_user uid un1 fn1 now1 d)) =
      (True, snd (add_user uid un1 fn1 now1 d))" by (simp add: first second)
    show "length (filter (\<lambda>(k, r). k = uid)
      (records (snd (add_user uid un2 fn2 now2 (snd (add_user uid un1 fn1 now1 d)))))) = 1"
      by (simp add: first second one)
    show "db w = d \<longrightarrow>
       db (after (command_start uid u2 f2 n2 (after (command_start uid u1 f1 n1 w)))) =
         db (after (command_start uid u1 f1 n1 w)) \<and>
       length (filter (\<lambda>(k, r). k = uid)
         (records (db (after (command_start uid u2 f2 n2 (after (command_start uid u1 f1 n1 w))))))) = 1"
      by (rule start)
  qed
qed

theorem create_if_absent_twice_witness:
  "users_table (snd (init_database Missing)) = Some \<lparr>cols = ALL_COLUMNS, rows = []\<rparr> \<and>
   map (\<lambda>(k, r). (k, full_name r))
     (records (snd (add_user 1 (lit ''other'') (lit ''Other Name'') 9
                (snd (add_user 1 (lit ''anna_t'') (lit ''Anna T'') 0 (snd (init_database Missing))))))) =
     [(1, lit ''Anna T'')]"
proof -
  have u: "users_table (snd (init_database Missing)) = Some \<lparr>cols = ALL_COLUMNS, rows = []\<rparr>"
    by (simp add: init_database_def path_exists_def)
  have h: "has_cols ALL_COLUMNS \<lparr>cols = ALL_COLUMNS, rows = []\<rparr>"
    by (simp add: has_cols_def)
  have k: "distinct (map fst (rows \<lparr>cols = ALL_COLUMNS, rows = []\<rparr>))"
    by simp
  have f: "records (snd (add_user 1 (lit ''anna_t'') (lit ''Anna T'') 0 (snd (init_database Missing)))) =
             [(1, new_row (lit ''anna_t'') (lit ''Anna T'') 0)]"
    by (simp add: init_database_def path_exists_def add_user_def has_cols_def ALL_COLUMNS_def
        insert_or_ignore_def)
  show ?thesis
    using u create_if_absent_twice [OF u h k, of 1 "lit ''anna_t''" "lit ''Anna T''" 0
        "lit ''other''" "lit ''Other Name''" 9]
    by (simp add: f new_row_def)
qed

text \<open>
  Claim C9. \<open>/export\<close> and \<open>/stats\<close> from a user whose identifier is not \<open>ADMIN_ID\<close>
  send the refusal and do nothing else: the database is not opened and nothing else is
  sent. From the user whose identifier is \<open>ADMIN_ID\<close> they run the export and the
  statistics and send their outcome.
\<close>

theorem operator_commands_only_for_operator:
  "(uid \<noteq> A \<longrightarrow>
      command_export A uid w = answer No_rights w \<and>
      command_stats A uid w = answer No_rights w) \<and>
   (uid = A \<longrightarrow>
      sent (command_export A uid w) =
        sent w @ [Export_begins,
          (case fst (export_users_to_excel (db w)) of
             (f, Some e) \<Rightarrow> Export_error e
           | (None, None) \<Rightarrow> Export_nothing
           | (Some k, None) \<Rightarrow>
               (case fst (get_user_stats (snd (export_users_to_excel (db w)))) of
                  Some s \<Rightarrow> Export_document k (total_users s) (users_with_requests s)
                | None \<Rightarrow> Export_document k 0 0))] \<and>
      sent (command_stats A uid w) =
        sent w @ [case fst (get_user_stats (db w)) of
                    None \<Rightarrow> Stats_unavailable | Some s \<Rightarrow> Stats_text s])"
  by (auto simp add: command_export_def command_stats_def answer_def Let_def
      split: prod.splits option.splits)

theorem operator_commands_only_for_operator_witness:
  "(5 :: int) \<noteq> 7 \<and>
   sent (command_export 7 5 (asking Form_name)) = [No_rights] \<and>
   sent (command_stats 7 5 (asking Form_name)) = [No_rights] \<and>
   sent (command_stats 7 7 (asking Form_name)) =
     [Stats_text \<lparr>total_users = 1, users_with_requests = 0\<rparr>] \<and>
   sent (command_export 7 7 (asking Form_name)) = [Export_begins, Export_document 1 1 0]"
proof -
  have g: "get_user_stats (db (asking Form_name)) =
             (Some \<lparr>total_users = 1, users_with_requests = 0\<rparr>, db (asking Form_name))"
    by (simp add: asking_db get_user_stats_def has_cols_def ALL_COLUMNS_def new_row_def)
  have e: "export_users_to_excel (db (asking Form_name)) = ((Some 1, None), db (asking Form_name))"
    by (simp add: asking_db export_users_to_excel_def has_cols_def ALL_COLUMNS_def)
  have s: "sent (asking Form_name) = []" by (simp add: asking_def)
  show ?thesis
    using operator_commands_only_for_operator [of 5 7 "asking Form_name"]
      operator_commands_only_for_operator [of 7 7 "asking Form_name"]
    by (simp add: g e s answer_def)
qed

subsection \<open>The stores the program reaches\<close>

lemma update_where_set_keys [simp]: "fst ` set (update_where k f rs) = fst ` set rs"
proof -
  have "set (map fst (update_where k f rs)) = set (map fst rs)" by simp
  then show ?thesis by (simp only: set_map)
qed

lemma update_where_all:
  assumes "\<forall>(k, r) \<in> set rs. P r" and "\<And>r. P r \<Longrightarrow> P (f r)"
  shows "\<forall>(k, r) \<in> set (update_where uid f rs). P r"
  using assms by (auto simp add: update_where_def split: if_splits)

lemma sound_init: "sound_store (snd (init_database d)) {}"
  by (cases d) (simp_all add: init_database_def path_exists_def os_remove_def sound_store_def
      split: option.splits)

lemma sound_cases:
  assumes "sound_store d U"
  obtains "d = Unreachable" and "U = {}"
  | t where "d = Db (Some t)" and "cols t = ALL_COLUMNS" and "distinct (map fst (rows t))"
      and "fst ` set (rows t) = U"
      and "\<forall>(k, r) \<in> set (rows t).
              complete r \<or> (real_name r = None \<and> age r = None \<and> phone r = None)"
  using assms by (auto simp add: sound_store_def split: dbfile.splits option.splits)

lemma sound_add:
  assumes "sound_store d U" and "add_user uid un fn now d = (ok, d')"
  shows "sound_store d' (if ok then insert uid U else U)"
  using assms(1)
proof (cases rule: sound_cases)
  case 1
  with assms(2) show ?thesis
    by (auto simp add: add_user_def users_table_def opened_def sound_store_def)
next
  case (2 t)
  have c: "has_cols ALL_COLUMNS t" using 2(2) by (simp add: has_cols_def)
  have new: "real_name (new_row un fn now) = None \<and> age (new_row un fn now) = None \<and>
             phone (new_row un fn now) = None"
    by (simp add: new_row_def)
  from assms(2) 2(1) add_user_intact [OF c, of uid un fn now]
  have ok: "ok" and d': "d' = Db (Some (t\<lparr>rows := insert_or_ignore uid (new_row un fn now) (rows t)\<rparr>))"
    by simp_all
  have rows: "\<forall>(k, r) \<in> set (insert_or_ignore uid (new_row un fn now) (rows t)).
              complete r \<or> (real_name r = None \<and> age r = None \<and> phone r = None)"
    using 2(5) new by (auto simp add: insert_or_ignore_def)
  show ?thesis
    using 2(2,3,4) rows ok
    by (simp add: d' sound_store_def insert_or_ignore_distinct insert_or_ignore_keys)
qed

lemma sound_problem:
  assumes "sound_store d U"
  shows "sound_store (snd (update_user_problem uid seg cp d)) U"
  using assms
proof (cases rule: sound_cases)
  case 1
  then show ?thesis
    by (simp add: update_user_problem_def users_table_def opened_def sound_store_def)
next
  case (2 t)
  have c1: "has_cols [''problem_segment'', ''custom_problem'', ''user_id''] t"
    and c2: "has_cols [''problem_segment'', ''user_id''] t"
    using 2(2) by (simp_all add: has_cols_def ALL_COLUMNS_def)
  have r1: "\<forall>(k, r) \<in> set (update_where uid
              (\<lambda>r. r\<lparr>problem_segment := Some seg, custom_problem := cp\<rparr>) (rows t)).
              complete r \<or> (real_name r = None \<and> age r = None \<and> phone r = None)"
    by (rule update_where_all [OF 2(5)]) (simp add: complete_def)
  have r2: "\<forall>(k, r) \<in> set (update_where uid (\<lambda>r. r\<lparr>problem_segment := Some seg\<rparr>) (rows t)).
              complete r \<or> (real_name r = None \<and> age r = None \<and> phone r = None)"
    by (rule update_where_all [OF 2(5)]) (simp add: complete_def)
  show ?thesis
    using 2(1,2,3,4) c1 c2 r1 r2
    by (simp add: update_user_problem_def users_table_def sound_store_def)
qed

lemma sound_contact:
  assumes "sound_store d U"
  shows "sound_store (snd (update_user_contact_info uid n a p d)) U"
  using assms
proof (cases rule: sound_cases)
  case 1
  then show ?thesis
    by (simp add: update_user_contact_info_def users_table_def opened_def sound_store_def)
next
  case (2 t)
  have c: "has_cols [''real_name'', ''age'', ''phone'', ''user_id''] t"
    using 2(2) by (simp add: has_cols_def ALL_COLUMNS_def)
  have r: "\<forall>(k, r) \<in> set (update_where uid
              (\<lambda>r. r\<lparr>real_name := Some n, age := Some a, phone := Some p\<rparr>) (rows t)).
              complete r \<or> (real_name r = None \<and> age r = None \<and> phone r = None)"
    using 2(5) by (auto simp add: update_where_def complete_def split: if_splits)
  show ?thesis
    using 2(1,2,3,4) c r
    by (simp add: update_user_contact_info_def users_table_def sound_store_def)
qed

lemma sound_reads:
  assumes "sound_store d U"
  shows "snd (user_exists uid d) = d" and "snd (problem_display_of uid d) = d"
    and "snd (get_user_stats d) = d" and "snd (export_users_to_excel d) = d"
  using assms
  by (cases rule: sound_cases;
      simp add: user_exists_def problem_display_of_def get_user_stats_def
        export_users_to_excel_def users_table_def opened_def Let_def
        split: option.splits prod.splits)+

lemma reach_sound: "reach d U \<Longrightarrow> sound_store d U"
proof (induction rule: reach.induct)
  case (created d)
  show ?case by (rule sound_init)
next
  case (added d U uid un fn now ok d')
  from added.IH added.hyps(2) show ?case by (rule sound_add)
next
  case (problem d U uid seg cp)
  from problem.IH show ?case by (rule sound_problem)
next
  case (contact d U uid n a p)
  from contact.IH show ?case by (rule sound_contact)
qed (simp_all add: sound_reads)

text \<open>
  Claim C4. In every store the program reaches, \<open>get_user_stats\<close> succeeds whenever the
  database can be reached; \<open>total_users\<close> is the number of users for whom \<open>add_user\<close>
  has succeeded since the store was created, and \<open>users_with_requests\<close> is the number
  of rows whose name, age and contact are all set. The query looks at the name and the
  contact only; the three are set together by the one statement that writes them.
\<close>

theorem stats_counts_reachable:
  assumes "reach d U"
  shows "(d \<noteq> Unreachable \<longrightarrow> fst (get_user_stats d) \<noteq> None) \<and>
         (\<forall>s. fst (get_user_stats d) = Some s \<longrightarrow>
              total_users s = card U \<and>
              users_with_requests s = length (filter (\<lambda>(k, r). complete r) (records d)))"
proof -
  from assms have "sound_store d U" by (rule reach_sound)
  then show ?thesis
  proof (cases rule: sound_cases)
    case 1
    then show ?thesis by (simp add: get_user_stats_def users_table_def)
  next
    case (2 t)
    have c: "has_cols [''real_name'', ''phone'', ''problem_segment'', ''age'',
                       ''custom_problem'', ''created_at''] t"
      using 2(2) by (simp add: has_cols_def ALL_COLUMNS_def)
    have "card U = length (rows t)"
      using 2(3,4) distinct_card [of "map fst (rows t)"] by simp
    moreover have "filter (\<lambda>(k, r). real_name r \<noteq> None \<and> phone r \<noteq> None) (rows t) =
                   filter (\<lambda>(k, r). complete r) (rows t)"
      using 2(5) by (intro filter_cong) (auto simp add: complete_def)
    ultimately show ?thesis
      using 2(1) c by (simp add: get_user_stats_def users_table_def)
  qed
qed

theorem stats_counts_reachable_witness:
  "reach one_lead {1} \<and>
   fst (get_user_stats one_lead) = Some \<lparr>total_users = 1, users_with_requests = 1\<rparr>"
proof -
  have r0: "reach (snd (init_database Missing)) {}" by (rule reach.created)
  have a: "add_user 1 (lit ''anna_t'') (lit ''Anna T'') 0 (snd (init_database Missing)) =
             (True, snd (add_user 1 (lit ''anna_t'') (lit ''Anna T'') 0 (snd (init_database Missing))))"
    by (simp add: init_database_def path_exists_def add_user_def has_cols_def ALL_COLUMNS_def)
  from reach.added [OF r0 a]
  have "reach (snd (add_user 1 (lit ''anna_t'') (lit ''Anna T'') 0 (snd (init_database Missing)))) {1}"
    by simp
  then have r: "reach one_lead {1}"
    unfolding one_lead_def by (rule reach.contact)
  have g: "fst (get_user_stats one_lead) \<noteq> None"
    by (simp add: one_lead_eq get_user_stats_def has_cols_def ALL_COLUMNS_def)
  have c: "length (filter (\<lambda>(k, r). complete r) (records one_lead)) = 1"
    by (simp add: one_lead_eq complete_def)
  from g obtain s where s: "fst (get_user_stats one_lead) = Some s" by blast
  with stats_counts_reachable [OF r] c have "total_users s = 1" "users_with_requests s = 1"
    by simp_all
  then have "s = \<lparr>total_users = 1, users_with_requests = 1\<rparr>" by simp
  with r s show ?thesis by simp
qed

subsection \<open>Deleting records\<close>

lemma keys_kept_exists:
  "fst ` set (records d) \<subseteq> fst ` set (records (snd (user_exists uid d)))"
  by (cases "users_table d") (simp_all add: user_exists_def users_table_Some)

lemma keys_kept_add:
  "fst ` set (records d) \<subseteq> fst ` set (records (snd (add_user uid un fn now d)))"
  by (cases "users_table d")
     (simp_all add: add_user_def users_table_Some insert_or_ignore_keys subset_insertI)

lemma keys_kept_problem:
  "fst ` set (records d) \<subseteq> fst ` set (records (snd (update_user_problem uid seg cp d)))"
  by (cases "users_table d") (simp_all add: update_user_problem_def users_table_Some)

lemma keys_kept_contact:
  "fst ` set (records d) \<subseteq> fst ` set (records (snd (update_user_contact_info uid n a p d)))"
  by (cases "users_table d") (simp_all add: update_user_contact_info_def users_table_Some)

lemma keys_kept_stats:
  "fst ` set (records d) \<subseteq> fst ` set (records (snd (get_user_stats d)))"
  by (cases "users_table d") (simp_all add: get_user_stats_def users_table_Some)

lemma keys_kept_export:
  "fst ` set (records d) \<subseteq> fst ` set (records (snd (export_users_to_excel d)))"
  by (cases "users_table d") (simp_all add: export_users_to_excel_def users_table_Some)

lemma init_database_fresh:
  "d \<noteq> Unreachable \<Longrightarrow> init_database d = (True, Db (Some \<lparr>cols = ALL_COLUMNS, rows = []\<rparr>))"
  by (cases d) (simp_all add: init_database_def path_exists_def os_remove_def)

lemma check_schema_required:
  assumes "set REQUIRED_COLUMNS \<subseteq> set (cols t)"
  shows "check_schema (Db (Some t)) = Db (Some t)"
proof -
  have "filter (\<lambda>c. c \<notin> set (cols t)) REQUIRED_COLUMNS = []"
    using assms by (auto simp add: filter_empty_conv)
  then show ?thesis by (simp add: check_schema_def path_exists_def users_table_def)
qed

lemma check_schema_missing:
  assumes "\<not> set REQUIRED_COLUMNS \<subseteq> set (cols t)"
  shows "check_schema (Db (Some t)) = Db (Some \<lparr>cols = ALL_COLUMNS, rows = []\<rparr>)"
proof -
  have "filter (\<lambda>c. c \<notin> set (cols t)) REQUIRED_COLUMNS \<noteq> []"
    using assms by (auto simp add: filter_empty_conv)
  then show ?thesis
    by (simp add: check_schema_def path_exists_def users_table_def os_remove_def
        init_database_def)
qed

lemma command_start_db:
  "db (after (command_start uid un fn now w)) =
     (let d1 = check_schema (db w)
      in if fst (user_exists uid d1) then snd (user_exists uid d1)
         else snd (add_user uid (if truthy un then the un else NOT_GIVEN_USERNAME) fn now
                     (snd (user_exists uid d1))))"
  by (simp add: command_start_def after_def Let_def split: prod.splits)

lemma start_keeps:
  assumes "users_table (db w) = Some t" and "set REQUIRED_COLUMNS \<subseteq> set (cols t)"
  shows "fst ` set (records (db w)) \<subseteq> fst ` set (records (db (after (command_start uid un fn now w))))"
proof -
  from assms(1) have d: "db w = Db (Some t)" by (simp add: users_table_Some)
  define u where "u = (if truthy un then the un else NOT_GIVEN_USERNAME)"
  define d2 where "d2 = snd (user_exists uid (db w))"
  have k1: "fst ` set (records (db w)) \<subseteq> fst ` set (records d2)"
    unfolding d2_def by (rule keys_kept_exists)
  have k2: "fst ` set (records d2) \<subseteq> fst ` set (records (snd (add_user uid u fn now d2)))"
    by (rule keys_kept_add)
  have "db (after (command_start uid un fn now w)) =
          (if fst (user_exists uid (db w)) then d2 else snd (add_user uid u fn now d2))"
    using check_schema_required [OF assms(2)] d
    by (simp add: command_start_db Let_def u_def d2_def)
  then show ?thesis
    using k1 k2 by (cases "fst (user_exists uid (db w))") auto
qed

lemma start_resets:
  assumes "users_table (db w) = Some t" and "\<not> set REQUIRED_COLUMNS \<subseteq> set (cols t)"
  shows "records (db (after (command_start uid un fn now w))) =
           [(uid, new_row (if truthy un then the un else NOT_GIVEN_USERNAME) fn now)]"
proof -
  from assms(1) have d: "db w = Db (Some t)" by (simp add: users_table_Some)
  show ?thesis
    using check_schema_missing [OF assms(2)] d
    by (simp add: command_start_db Let_def user_exists_def add_user_def users_table_def
        has_cols_def ALL_COLUMNS_def insert_or_ignore_def)
qed

text \<open>
  Claim C3, as the specification has it, lets the start of the process keep the records
  of a store whose schema is intact. \<open>init_database\<close> removes the file whenever it is
  there: a table with all columns and one record is empty after \<open>on_startup\<close>.
\<close>

theorem startup_deletes_records:
  "has_cols ALL_COLUMNS \<lparr>cols = ALL_COLUMNS, rows = [(1, new_row (lit ''anna_t'') (lit ''Anna T'') 0)]\<rparr> \<and>
   map fst (records (Db (Some \<lparr>cols = ALL_COLUMNS,
                               rows = [(1, new_row (lit ''anna_t'') (lit ''Anna T'') 0)]\<rparr>))) = [1] \<and>
   records (fst (on_startup 0 (Db (Some \<lparr>cols = ALL_COLUMNS,
                               rows = [(1, new_row (lit ''anna_t'') (lit ''Anna T'') 0)]\<rparr>)))) = []"
  by (simp add: on_startup_def init_database_def path_exists_def os_remove_def has_cols_def
      records_def users_table_def)

text \<open>
  Claim C3, amended. Creating a record, updating the problem or the contact data, the
  statistics and the export never delete a record, and neither does \<open>/start\<close> on a
  table that has the three columns it checks. \<open>/start\<close> on a table that lacks one of
  them recreates the store, which then holds the user who sent it and nobody else. The
  start of the process recreates the store empty whatever its schema was.
\<close>

theorem records_deleted_only_by_reset:
  "fst ` set (records d) \<subseteq> fst ` set (records (snd (add_user uid un fn now d))) \<and>
   fst ` set (records d) \<subseteq> fst ` set (records (snd (update_user_problem uid seg cp d))) \<and>
   fst ` set (records d) \<subseteq> fst ` set (records (snd (update_user_contact_info uid n a p d))) \<and>
   fst ` set (records d) \<subseteq> fst ` set (records (snd (get_user_stats d))) \<and>
   fst ` set (records d) \<subseteq> fst ` set (records (snd (export_users_to_excel d))) \<and>
   (users_table (db w) = Some t \<and> set REQUIRED_COLUMNS \<subseteq> set (cols t) \<longrightarrow>
      fst ` set (records (db w)) \<subseteq>
        fst ` set (records (db (after (command_start uid uname fn now w))))) \<and>
   (users_table (db w) = Some t \<and> \<not> set REQUIRED_COLUMNS \<subseteq> set (cols t) \<longrightarrow>
      records (db (after (command_start uid uname fn now w))) =
        [(uid, new_row (if truthy uname then the uname else NOT_GIVEN_USERNAME) fn now)]) \<and>
   (d \<noteq> Unreachable \<longrightarrow>
      fst (on_startup A d) = Db (Some \<lparr>cols = ALL_COLUMNS, rows = []\<rparr>))"
proof (intro conjI impI)
  show "fst ` set (records d) \<subseteq> fst ` set (records (snd (add_user uid un fn now d)))"
    and "fst ` set (records d) \<subseteq> fst ` set (records (snd (update_user_problem uid seg cp d)))"
    and "fst ` set (records d) \<subseteq> fst ` set (records (snd (update_user_contact_info uid n a p d)))"
    and "fst ` set (records d) \<subseteq> fst ` set (records (snd (get_user_stats d)))"
    and "fst ` set (records d) \<subseteq> fst ` set (records (snd (export_users_to_excel d)))"
    by (rule keys_kept_add keys_kept_problem keys_kept_contact keys_kept_stats keys_kept_export)+
next
  assume "users_table (db w) = Some t \<and> set REQUIRED_COLUMNS \<subseteq> set (cols t)"
  then show "fst ` set (records (db w)) \<subseteq>
        fst ` set (records (db (after (command_start uid uname fn now w))))"
    using start_keeps by blast
next
  assume "users_table (db w) = Some t \<and> \<not> set REQUIRED_COLUMNS \<subseteq> set (cols t)"
  then show "records (db (after (command_start uid uname fn now w))) =
        [(uid, new_row (if truthy uname then the uname else NOT_GIVEN_USERNAME) fn now)]"
    using start_resets by blast
next
  assume "d \<noteq> Unreachable"
  then show "fst (on_startup A d) = Db (Some \<lparr>cols = ALL_COLUMNS, rows = []\<rparr>)"
    by (simp add: on_startup_def init_database_fresh)
qed

theorem records_deleted_only_by_reset_witness:
  "users_table (db (asking Form_name)) =
     Some \<lparr>cols = ALL_COLUMNS, rows = [(1, new_row (lit ''anna_t'') (lit ''Anna T'') 0)]\<rparr> \<and>
   set REQUIRED_COLUMNS \<subseteq> set ALL_COLUMNS \<and>
   \<not> set REQUIRED_COLUMNS \<subseteq> set [''user_id'', ''username'', ''full_name''] \<and>
   db (asking Form_name) \<noteq> Unreachable \<and>
   1 \<in> fst ` set (records (db (after (command_start 2 None (lit ''Boris'') 5 (asking Form_name))))) \<and>
   records (db (after (command_start 2 None (lit ''Boris'') 5
      \<lparr>ctx = idle,
       db = Db (Some \<lparr>cols = [''user_id'', ''username'', ''full_name''],
                      rows = [(1, new_row (lit ''anna_t'') (lit ''Anna T'') 0)]\<rparr>),
       sent = []\<rparr>))) = [(2, new_row NOT_GIVEN_USERNAME (lit ''Boris'') 5)] \<and>
   fst (on_startup 0 (db (asking Form_name))) = Db (Some \<lparr>cols = ALL_COLUMNS, rows = []\<rparr>)"
proof -
  have r: "set REQUIRED_COLUMNS \<subseteq> set ALL_COLUMNS"
    and m: "\<not> set REQUIRED_COLUMNS \<subseteq> set [''user_id'', ''username'', ''full_name'']"
    by (simp_all add: REQUIRED_COLUMNS_def ALL_COLUMNS_def)
  show ?thesis
    using r m
      records_deleted_only_by_reset
        [where d = "db (asking Form_name)" and w = "asking Form_name"
           and t = "\<lparr>cols = ALL_COLUMNS, rows = [(1, new_row (lit ''anna_t'') (lit ''Anna T'') 0)]\<rparr>"
           and uid = 2 and uname = None and fn = "lit ''Boris''" and now = 5 and A = 0]
      records_deleted_only_by_reset
        [where w = "\<lparr>ctx = idle,
              db = Db (Some \<lparr>cols = [''user_id'', ''username'', ''full_name''],
                      rows = [(1, new_row (lit ''anna_t'') (lit ''Anna T'') 0)]\<rparr>),
              sent = []\<rparr>"
           and t = "\<lparr>cols = [''user_id'', ''username'', ''full_name''],
                      rows = [(1, new_row (lit ''anna_t'') (lit ''Anna T'') 0)]\<rparr>"
           and uid = 2 and uname = None and fn = "lit ''Boris''" and now = 5]
    by (simp add: asking_db truthy_def)
qed

subsection \<open>The text of the user's own problem\<close>

lemma fresh_start:
  "fst (on_startup 0 Missing) = Db (Some \<lparr>cols = ALL_COLUMNS, rows = []\<rparr>)"
  by (simp add: on_startup_def init_database_def path_exists_def)

lemma scenario_start:
  "after (command_start 1 (Some (lit ''anna_t'')) (lit ''Anna T'') 0
      \<lparr>ctx = idle, db = Db (Some \<lparr>cols = ALL_COLUMNS, rows = []\<rparr>), sent = []\<rparr>) =
   \<lparr>ctx = idle,
    db = Db (Some \<lparr>cols = ALL_COLUMNS, rows = [(1, new_row (lit ''anna_t'') (lit ''Anna T'') 0)]\<rparr>),
    sent = [Welcome]\<rparr>"
  by (simp add: command_start_def after_def Let_def check_schema_def path_exists_def
      REQUIRED_COLUMNS_def user_exists_def add_user_def answer_def
      users_table_def has_cols_def ALL_COLUMNS_def insert_or_ignore_def truthy_def
      lit_def isspace_def)

lemma scenario_custom:
  "db (after (handle_custom_problem_input 1
         (Some (lit ''Feeling exhausted all the time and losing interest''))
         (handle_custom_problem_start
            \<lparr>ctx = idle,
             db = Db (Some \<lparr>cols = ALL_COLUMNS,
                            rows = [(1, new_row (lit ''anna_t'') (lit ''Anna T'') 0)]\<rparr>),
             sent = [Welcome]\<rparr>))) =
   Db (Some \<lparr>cols = ALL_COLUMNS,
             rows = [(1, (new_row (lit ''anna_t'') (lit ''Anna T'') 0)
                \<lparr>problem_segment := Some CUSTOM,
                 custom_problem := Some (lit ''Feeling exhausted all the time and losing interest'')\<rparr>)]\<rparr>)"
  by (simp add: handle_custom_problem_input_def handle_custom_problem_start_def after_def
      Let_def answer_def update_user_problem_def users_table_def has_cols_def ALL_COLUMNS_def
      update_where_def truthy_def str_eval)

lemma selection_db:
  "db (handle_problem_selection uid key w) =
     snd (update_user_problem uid
            (case PROBLEM_NAMES key of Some n \<Rightarrow> n | None \<Rightarrow> UNKNOWN_PROBLEM) None (db w))"
  by (simp add: handle_problem_selection_def Let_def)

text \<open>
  Claim C2, as the specification has it, allows a text in \<open>custom_problem\<close> only beside
  the segment \<open>btn_custom\<close>. A user who describes an own problem and then chooses a
  fixed category has the name of that category beside the text, which is still there.
\<close>

theorem fixed_category_beside_custom_text:
  "map (\<lambda>(k, r). (problem_segment r, custom_problem r)) (records (db custom_then_fixed)) =
     [(Some NAME_ANXIETY, Some (lit ''Feeling exhausted all the time and losing interest''))] \<and>
   NAME_ANXIETY \<noteq> CUSTOM \<and>
   lit ''Feeling exhausted all the time and losing interest'' \<noteq> []"
proof -
  have s3: "db (after (handle_custom_problem_input 1
                 (Some (lit ''Feeling exhausted all the time and losing interest''))
          (handle_custom_problem_start
             (after (command_start 1 (Some (lit ''anna_t'')) (lit ''Anna T'') 0
                \<lparr>ctx = idle, db = fst (on_startup 0 Missing), sent = []\<rparr>))))) =
      Db (Some \<lparr>cols = ALL_COLUMNS,
             rows = [(1, (new_row (lit ''anna_t'') (lit ''Anna T'') 0)
                \<lparr>problem_segment := Some CUSTOM,
                 custom_problem := Some (lit ''Feeling exhausted all the time and losing interest'')\<rparr>)]\<rparr>)"
    by (simp only: fresh_start scenario_start scenario_custom)
  have "db custom_then_fixed =
    snd (update_user_problem 1 NAME_ANXIETY None
      (Db (Some \<lparr>cols = ALL_COLUMNS,
             rows = [(1, (new_row (lit ''anna_t'') (lit ''Anna T'') 0)
                \<lparr>problem_segment := Some CUSTOM,
                 custom_problem := Some (lit ''Feeling exhausted all the time and losing interest'')\<rparr>)]\<rparr>)))"
    unfolding custom_then_fixed_def selection_db s3
    by (simp add: PROBLEM_NAMES_def)
  then show ?thesis
    by (simp add: update_user_problem_def truthy_def has_cols_def ALL_COLUMNS_def
        update_where_def new_row_def NAME_ANXIETY_def CUSTOM_def lit_def)
qed

lemma update_where_rel:
  assumes "\<And>r. R r r" and "\<And>r. R r (f r)"
  shows "list_all2 (\<lambda>(k, r) (k', r'). k' = k \<and> R r r') rs (update_where uid f rs)"
  by (induction rs) (auto simp add: update_where_def assms split: if_splits)

lemma problem_pointwise:
  "list_all2 (\<lambda>(k, r) (k', r'). k' = k \<and>
       (custom_problem r' \<noteq> custom_problem r \<longrightarrow>
          seg = CUSTOM \<and> truthy cp \<and> problem_segment r' = Some CUSTOM \<and> custom_problem r' = cp))
     (records d) (records (snd (update_user_problem uid seg cp d)))"
proof (cases "users_table d")
  case None
  then have "records (snd (update_user_problem uid seg cp d)) = records d"
    by (simp add: update_user_problem_def)
  then show ?thesis by (auto simp add: list_all2_same)
next
  case (Some t)
  then have d: "d = Db (Some t)" by (simp add: users_table_Some)
  have same: "list_all2 (\<lambda>(k, r) (k', r'). k' = k \<and>
       (custom_problem r' \<noteq> custom_problem r \<longrightarrow>
          seg = CUSTOM \<and> truthy cp \<and> problem_segment r' = Some CUSTOM \<and> custom_problem r' = cp))
     (rows t) (rows t)"
    by (auto simp add: list_all2_same)
  have only: "list_all2 (\<lambda>(k, r) (k', r'). k' = k \<and>
       (custom_problem r' \<noteq> custom_problem r \<longrightarrow>
          seg = CUSTOM \<and> truthy cp \<and> problem_segment r' = Some CUSTOM \<and> custom_problem r' = cp))
     (rows t) (update_where uid (\<lambda>r. r\<lparr>problem_segment := Some seg\<rparr>) (rows t))"
    by (rule update_where_rel) simp_all
  have both: "truthy cp \<and> seg = CUSTOM \<Longrightarrow> list_all2 (\<lambda>(k, r) (k', r'). k' = k \<and>
       (custom_problem r' \<noteq> custom_problem r \<longrightarrow>
          seg = CUSTOM \<and> truthy cp \<and> problem_segment r' = Some CUSTOM \<and> custom_problem r' = cp))
     (rows t) (update_where uid
        (\<lambda>r. r\<lparr>problem_segment := Some seg, custom_problem := cp\<rparr>) (rows t))"
    by (rule update_where_rel) simp_all
  show ?thesis
  proof (cases "truthy cp \<and> seg = CUSTOM")
    case True
    show ?thesis
    proof (cases "has_cols [''problem_segment'', ''custom_problem'', ''user_id''] t")
      case yes: True
      from both [OF True] True yes show ?thesis by (simp add: update_user_problem_def d)
    next
      case no: False
      from same True no show ?thesis by (simp add: update_user_problem_def d)
    qed
  next
    case False
    show ?thesis
    proof (cases "has_cols [''problem_segment'', ''user_id''] t")
      case yes: True
      from only False yes show ?thesis by (auto simp add: update_user_problem_def d)
    next
      case no: False
      from same False no show ?thesis by (auto simp add: update_user_problem_def d)
    qed
  qed
qed

lemma update_where_same_field:
  assumes "\<And>r. g (f r) = g r"
  shows "map (\<lambda>(k, r). g r) (update_where uid f rs) = map (\<lambda>(k, r). g r) rs"
  using assms by (induction rs) (auto simp add: update_where_def)

lemma selection_keeps_text:
  "map (\<lambda>(k, r). custom_problem r) (records (db (handle_problem_selection uid key w))) =
   map (\<lambda>(k, r). custom_problem r) (records (db w))"
proof (cases "users_table (db w)")
  case None
  then show ?thesis
    by (simp add: handle_problem_selection_def Let_def update_user_problem_def)
next
  case (Some t)
  then have d: "db w = Db (Some t)" by (simp add: users_table_Some)
  show ?thesis
    by (simp add: handle_problem_selection_def Let_def update_user_problem_def d truthy_def
        update_where_same_field)
qed

lemma contact_keeps_text:
  "map (\<lambda>(k, r). custom_problem r) (records (snd (update_user_contact_info uid n a p d))) =
   map (\<lambda>(k, r). custom_problem r) (records d)"
proof (cases "users_table d")
  case None
  then show ?thesis by (simp add: update_user_contact_info_def)
next
  case (Some t)
  then have d: "d = Db (Some t)" by (simp add: users_table_Some)
  show ?thesis by (simp add: update_user_contact_info_def d update_where_same_field)
qed

lemma custom_accept:
  "10 \<le> length (strip t) \<Longrightarrow>
   db (after (handle_custom_problem_input uid (Some t) w)) =
     snd (update_user_problem uid CUSTOM (Some (strip t)) (db w))"
  by (simp add: handle_custom_problem_input_def after_def Let_def)

text \<open>
  Claim C2, amended. \<open>update_user_problem\<close> changes \<open>custom_problem\<close> of a row only when
  it is given a text that is not empty together with the segment \<open>btn_custom\<close>, and
  then writes both in one statement. The choice of a fixed category and the update of
  the contact data leave every \<open>custom_problem\<close> as it was. An own problem of ten or
  more characters after trimming is written by that one update.
\<close>

theorem custom_text_written_with_custom_only:
  "list_all2 (\<lambda>(k, r) (k', r'). k' = k \<and>
       (custom_problem r' \<noteq> custom_problem r \<longrightarrow>
          seg = CUSTOM \<and> truthy cp \<and> problem_segment r' = Some CUSTOM \<and> custom_problem r' = cp))
     (records d) (records (snd (update_user_problem uid seg cp d))) \<and>
   map (\<lambda>(k, r). custom_problem r) (records (db (handle_problem_selection uid key w))) =
     map (\<lambda>(k, r). custom_problem r) (records (db w)) \<and>
   map (\<lambda>(k, r). custom_problem r) (records (snd (update_user_contact_info uid n a p d))) =
     map (\<lambda>(k, r). custom_problem r) (records d) \<and>
   (10 \<le> length (strip t) \<longrightarrow>
      db (after (handle_custom_problem_input uid (Some t) w)) =
        snd (update_user_problem uid CUSTOM (Some (strip t)) (db w)))"
  using problem_pointwise [of seg cp d uid] selection_keeps_text [of uid key w]
    contact_keeps_text [of uid n a p d] custom_accept [of t uid w]
  by (intro conjI impI)

theorem custom_text_written_with_custom_only_witness:
  "10 \<le> length (strip (lit ''  Feeling exhausted  '')) \<and>
   map (\<lambda>(k, r). (problem_segment r, custom_problem r))
     (records (db (after (handle_custom_problem_input 1 (Some (lit ''  Feeling exhausted  ''))
                            (asking Form_custom_problem))))) =
     [(Some CUSTOM, Some (lit ''Feeling exhausted''))]"
proof -
  have s: "strip (lit ''  Feeling exhausted  '') = lit ''Feeling exhausted''"
    by (simp add: str_eval)
  have l: "length (lit ''Feeling exhausted'') = 17" by (simp add: lit_def)
  have u: "records (snd (update_user_problem 1 CUSTOM (Some (lit ''Feeling exhausted''))
              (db (asking Form_custom_problem)))) =
           [(1, (new_row (lit ''anna_t'') (lit ''Anna T'') 0)
                  \<lparr>problem_segment := Some CUSTOM,
                   custom_problem := Some (lit ''Feeling exhausted'')\<rparr>)]"
    by (simp add: asking_db update_user_problem_def has_cols_def ALL_COLUMNS_def truthy_def
        update_where_def lit_def)
  show ?thesis
    using custom_text_written_with_custom_only
            [where uid = 1 and t = "lit ''  Feeling exhausted  ''"
               and w = "asking Form_custom_problem"]
    by (simp add: s l u)
qed

end
